theory Spec2Isabelle
  imports
    Main
    "HOL-Library.Word"
    "HOL-Library.List_Lexorder"
    "HOL-Library.Multiset"
    "HOL-Library.AList"
begin

section \<open>JavaScript values\<close>

text \<open>
  A JavaScript string is a sequence of UTF-16 code units. The relational operators
  \<^verbatim>\<open><\<close>, \<^verbatim>\<open>>=\<close> on two strings compare them code unit by code unit, a proper
  prefix being smaller: this is the lexicographic order on lists.
\<close>

type_synonym codeUnit = "16 word"
type_synonym jsstring = "codeUnit list"

text \<open>An ASCII literal as a JavaScript string.\<close>

definition ascii :: "string \<Rightarrow> jsstring" where
  "ascii s = map (\<lambda>c. of_nat (of_char c)) s"

text \<open>
  The amount of a record is a Number; \<open>None\<close> stands for "not a number": \<^verbatim>\<open>NaN\<close>
  in memory, which \<^verbatim>\<open>JSON.stringify\<close> persists as \<^verbatim>\<open>null\<close>.
\<close>

type_synonym number = "int option"

text \<open>
  WhiteSpace and LineTerminator code units (ECMA-262), the ones
  \<^verbatim>\<open>String.prototype.trim\<close> strips and \<^verbatim>\<open>parseInt\<close> skips.
\<close>

definition isWhiteSpace :: "codeUnit \<Rightarrow> bool" where
  "isWhiteSpace c =
     (c \<in> {0x09, 0x0A, 0x0B, 0x0C, 0x0D, 0x20, 0xA0, 0x1680, 0x2028, 0x2029,
            0x202F, 0x205F, 0x3000, 0xFEFF}
      \<or> (0x2000 \<le> c \<and> c \<le> 0x200A))"

definition trim :: "jsstring \<Rightarrow> jsstring" where
  "trim s = rev (dropWhile isWhiteSpace (rev (dropWhile isWhiteSpace s)))"

text \<open>
  \<^verbatim>\<open>parseInt(string)\<close> with no radix: leading white space is skipped, a sign is
  read, a \<^verbatim>\<open>0x\<close> prefix selects radix 16, the longest prefix of digits is the
  value, and no digit at all gives \<^verbatim>\<open>NaN\<close>. (The host rounds integers beyond
  \<open>2^53\<close> to a double; the model keeps the mathematical integer.)
\<close>

definition digitValue :: "codeUnit \<Rightarrow> nat option" where
  "digitValue c =
     (if 0x30 \<le> c \<and> c \<le> 0x39 then Some (unat c - 0x30)
      else if 0x61 \<le> c \<and> c \<le> 0x7A then Some (unat c - 0x61 + 10)
      else if 0x41 \<le> c \<and> c \<le> 0x5A then Some (unat c - 0x41 + 10)
      else None)"

definition isRadixDigit :: "nat \<Rightarrow> codeUnit \<Rightarrow> bool" where
  "isRadixDigit R c = (case digitValue c of None \<Rightarrow> False | Some d \<Rightarrow> d < R)"

definition mathematicalValue :: "nat \<Rightarrow> jsstring \<Rightarrow> int" where
  "mathematicalValue R Z =
     foldl (\<lambda>v c. case digitValue c of None \<Rightarrow> v | Some d \<Rightarrow> v * int R + int d) 0 Z"

definition parseInt :: "jsstring \<Rightarrow> number" where
  "parseInt inputString =
     (let S = dropWhile isWhiteSpace inputString;
          sign = (if S \<noteq> [] \<and> hd S = 0x2D then - 1 else (1::int));
          S1 = (if S \<noteq> [] \<and> (hd S = 0x2B \<or> hd S = 0x2D) then tl S else S);
          hex = (2 \<le> length S1 \<and> hd S1 = 0x30 \<and> (S1 ! 1 = 0x78 \<or> S1 ! 1 = 0x58));
          R = (if hex then 16 else 10);
          S2 = (if hex then drop 2 S1 else S1);
          Z = takeWhile (isRadixDigit R) S2
      in if Z = [] then None else Some (sign * mathematicalValue R Z))"

section \<open>Data model\<close>

text \<open>
  The five fields a record and a form submission share. In a stored record the amount
  is a Number and the memo a string; in the form data handed to
  \<^verbatim>\<open>addExpense\<close>/\<^verbatim>\<open>updateExpense\<close> the amount is the text of the input
  field and the memo may be missing (\<^verbatim>\<open>null\<close>).
\<close>

record ('n, 'm) expenseFields =
  date :: jsstring
  category :: jsstring
  paymentMethod :: jsstring
  amount :: 'n
  memo :: 'm

type_synonym expenseData = "(jsstring, jsstring option) expenseFields"

record expense = "(number, jsstring) expenseFields" +
  id' :: jsstring

record filterState =
  from' :: jsstring
  to' :: jsstring
  category' :: jsstring
  paymentMethod' :: jsstring

text \<open>
  \<^verbatim>\<open>localStorage\<close>, parsed: the three keys \<^verbatim>\<open>expenseTracker:records\<close>,
  \<^verbatim>\<open>expenseTracker:categories\<close> and \<^verbatim>\<open>expenseTracker:filters\<close>, each absent
  (\<open>None\<close>) or holding a value. The browser's storage is taken to be available and its
  writes to succeed.
\<close>

record storage =
  records :: "expense list option"
  categories :: "jsstring list option"
  filters :: "filterState option"

definition getStorageData :: "'a option \<Rightarrow> 'a \<Rightarrow> 'a" where
  "getStorageData data defaultValue =
     (case data of None \<Rightarrow> defaultValue | Some v \<Rightarrow> v)"

text \<open>The sync configuration: the two globals of \<^verbatim>\<open>main.js\<close>.\<close>

record config =
  GAS_WEB_APP_URL :: jsstring
  SPREADSHEET_ENABLED :: bool

section \<open>The remote endpoint as the client sees it\<close>

text \<open>
  What travels as JSON is untyped: a property of a record is a string, a number or
  \<^verbatim>\<open>null\<close>. \<^verbatim>\<open>JSON.stringify\<close> turns a stored record into such an object.
\<close>

datatype jsvalue = Str jsstring | Num int | Null

record jsonRecord =
  jid :: jsvalue
  jdate :: jsvalue
  jcategory :: jsvalue
  jpaymentMethod :: jsvalue
  jamount :: jsvalue
  jmemo :: jsvalue

definition toJson :: "expense \<Rightarrow> jsonRecord" where
  "toJson r =
     \<lparr>jid = Str (id' r), jdate = Str (date r), jcategory = Str (category r),
      jpaymentMethod = Str (paymentMethod r),
      jamount = (case amount r of None \<Rightarrow> Null | Some n \<Rightarrow> Num n),
      jmemo = Str (memo r)\<rparr>"

text \<open>
  The body of a POST names an action; a GET has no body. A call of \<^verbatim>\<open>fetch\<close>
  followed by \<^verbatim>\<open>response.json()\<close> either throws (the transport failed, or the
  body was not JSON) or yields the parsed response, of which the client reads
  \<^verbatim>\<open>success\<close> and \<^verbatim>\<open>records\<close>.
\<close>

datatype action =
  Add jsonRecord | Update jsonRecord | Delete jsvalue | Sync "jsonRecord list" | Invalid

datatype request = GET | POST action

record response =
  success :: bool
  records' :: "jsonRecord list option"

datatype reply = Threw | Json response

text \<open>
  \<^verbatim>\<open>fetch\<close> is the host's: the model takes it as a parameter that, given the
  request and the state \<open>'srv\<close> of whatever answers at \<^verbatim>\<open>GAS_WEB_APP_URL\<close>,
  returns the reply and the remote state after the call.
\<close>

type_synonym 'srv fetch = "request \<Rightarrow> 'srv \<Rightarrow> reply \<times> 'srv"

definition fetchRecordsFromSpreadsheet ::
  "config \<Rightarrow> 'srv fetch \<Rightarrow> 'srv \<Rightarrow> jsonRecord list option \<times> 'srv" where
  "fetchRecordsFromSpreadsheet cfg fetch srv =
     (if \<not> SPREADSHEET_ENABLED cfg \<or> GAS_WEB_APP_URL cfg = [] then (None, srv)
      else case fetch GET srv of
        (Threw, srv') \<Rightarrow> (None, srv')
      | (Json data, srv') \<Rightarrow> (if success data then (records' data, srv') else (None, srv')))"

definition addRecordToSpreadsheet ::
  "config \<Rightarrow> 'srv fetch \<Rightarrow> expense \<Rightarrow> 'srv \<Rightarrow> bool \<times> 'srv" where
  "addRecordToSpreadsheet cfg fetch r srv =
     (if \<not> SPREADSHEET_ENABLED cfg \<or> GAS_WEB_APP_URL cfg = [] then (False, srv)
      else case fetch (POST (Add (toJson r))) srv of
        (Threw, srv') \<Rightarrow> (False, srv')
      | (Json data, srv') \<Rightarrow> (success data, srv'))"

definition updateRecordInSpreadsheet ::
  "config \<Rightarrow> 'srv fetch \<Rightarrow> expense \<Rightarrow> 'srv \<Rightarrow> bool \<times> 'srv" where
  "updateRecordInSpreadsheet cfg fetch r srv =
     (if \<not> SPREADSHEET_ENABLED cfg \<or> GAS_WEB_APP_URL cfg = [] then (False, srv)
      else case fetch (POST (Update (toJson r))) srv of
        (Threw, srv') \<Rightarrow> (False, srv')
      | (Json data, srv') \<Rightarrow> (success data, srv'))"

definition deleteRecordFromSpreadsheet ::
  "config \<Rightarrow> 'srv fetch \<Rightarrow> jsstring \<Rightarrow> 'srv \<Rightarrow> bool \<times> 'srv" where
  "deleteRecordFromSpreadsheet cfg fetch recordId srv =
     (if \<not> SPREADSHEET_ENABLED cfg \<or> GAS_WEB_APP_URL cfg = [] then (False, srv)
      else case fetch (POST (Delete (Str recordId))) srv of
        (Threw, srv') \<Rightarrow> (False, srv')
      | (Json data, srv') \<Rightarrow> (success data, srv'))"

definition syncRecordsToSpreadsheet ::
  "config \<Rightarrow> 'srv fetch \<Rightarrow> expense list \<Rightarrow> 'srv \<Rightarrow> bool \<times> 'srv" where
  "syncRecordsToSpreadsheet cfg fetch recs srv =
     (if \<not> SPREADSHEET_ENABLED cfg \<or> GAS_WEB_APP_URL cfg = [] then (False, srv)
      else case fetch (POST (Sync (map toJson recs))) srv of
        (Threw, srv') \<Rightarrow> (False, srv')
      | (Json data, srv') \<Rightarrow> (success data, srv'))"

section \<open>Record Store: the CRUD functions of main.js\<close>

text \<open>
  Each function takes the local storage and the remote state and returns its JavaScript
  return value, the storage and the remote state afterwards. The id that
  \<^verbatim>\<open>generateId()\<close> draws from the clock and the random generator is an argument.
  \<^verbatim>\<open>expenseData.memo || ''\<close> is \<open>orEmpty\<close>.
\<close>

definition orEmpty :: "jsstring option \<Rightarrow> jsstring" where
  "orEmpty m = (case m of None \<Rightarrow> [] | Some s \<Rightarrow> s)"

fun findIndex :: "('a \<Rightarrow> bool) \<Rightarrow> 'a list \<Rightarrow> nat option" where
  "findIndex p [] = None"
| "findIndex p (x # xs) = (if p x then Some 0 else map_option Suc (findIndex p xs))"

definition addExpense ::
  "config \<Rightarrow> 'srv fetch \<Rightarrow> jsstring \<Rightarrow> expenseData \<Rightarrow> storage \<Rightarrow> 'srv
     \<Rightarrow> expense \<times> storage \<times> 'srv" where
  "addExpense cfg fetch generatedId expenseData st srv =
     (let recs = getStorageData (records st) [];
          newExpense =
            \<lparr>date = date expenseData, category = category expenseData,
             paymentMethod = paymentMethod expenseData,
             amount = parseInt (amount expenseData),
             memo = orEmpty (memo expenseData), id' = generatedId\<rparr>;
          st' = st\<lparr>records := Some (recs @ [newExpense])\<rparr>;
          (acknowledged, srv') =
            (if SPREADSHEET_ENABLED cfg then addRecordToSpreadsheet cfg fetch newExpense srv
             else (False, srv))
      in (newExpense, st', srv'))"

definition updateExpense ::
  "config \<Rightarrow> 'srv fetch \<Rightarrow> jsstring \<Rightarrow> expenseData \<Rightarrow> storage \<Rightarrow> 'srv
     \<Rightarrow> expense option \<times> storage \<times> 'srv" where
  "updateExpense cfg fetch recordId expenseData st srv =
     (let recs = getStorageData (records st) [] in
      case findIndex (\<lambda>r. id' r = recordId) recs of
        None \<Rightarrow> (None, st, srv)
      | Some index \<Rightarrow>
          (let recs' = recs[index := (recs ! index)
                 \<lparr>date := date expenseData, category := category expenseData,
                  paymentMethod := paymentMethod expenseData,
                  amount := parseInt (amount expenseData),
                  memo := orEmpty (memo expenseData)\<rparr>];
               st' = st\<lparr>records := Some recs'\<rparr>;
               (acknowledged, srv') =
                 (if SPREADSHEET_ENABLED cfg
                  then updateRecordInSpreadsheet cfg fetch (recs' ! index) srv
                  else (False, srv))
           in (Some (recs' ! index), st', srv')))"

definition deleteExpense ::
  "config \<Rightarrow> 'srv fetch \<Rightarrow> jsstring \<Rightarrow> storage \<Rightarrow> 'srv \<Rightarrow> unit \<times> storage \<times> 'srv" where
  "deleteExpense cfg fetch recordId st srv =
     (let recs = getStorageData (records st) [];
          filteredRecords = filter (\<lambda>r. id' r \<noteq> recordId) recs;
          st' = st\<lparr>records := Some filteredRecords\<rparr>;
          (acknowledged, srv') =
            (if SPREADSHEET_ENABLED cfg then deleteRecordFromSpreadsheet cfg fetch recordId srv
             else (False, srv))
      in ((), st', srv'))"

section \<open>Category Store\<close>

text \<open>
  \<^verbatim>\<open>alert\<close> only informs the user and is left out; the answer the user gives to
  \<^verbatim>\<open>confirm\<close> is the argument \<open>confirmed\<close> of \<open>deleteCategory\<close>, read only when
  a record uses the category: the function returns \<^verbatim>\<open>false\<close> early exactly when the
  category is used and the user declines.
\<close>

definition addCategory :: "jsstring \<Rightarrow> storage \<Rightarrow> bool \<times> storage" where
  "addCategory categoryName st =
     (if categoryName = [] \<or> trim categoryName = [] then (False, st)
      else
        (let cats = getStorageData (categories st) [];
             trimmedName = trim categoryName
         in if trimmedName \<in> set cats then (False, st)
            else (True, st\<lparr>categories := Some (cats @ [trimmedName])\<rparr>)))"

definition deleteCategory :: "bool \<Rightarrow> jsstring \<Rightarrow> storage \<Rightarrow> bool \<times> storage" where
  "deleteCategory confirmed categoryName st =
     (let recs = getStorageData (records st) [];
          isUsed = list_ex (\<lambda>r. category r = categoryName) recs
      in if isUsed \<and> \<not> confirmed then (False, st)
         else
           (let cats = getStorageData (categories st) [];
                filteredCategories = filter (\<lambda>cat. cat \<noteq> categoryName) cats
            in (True, st\<lparr>categories := Some filteredCategories\<rparr>)))"

text \<open>The default of \<open>getCategories\<close> is the seeded list of four categories, in code units.\<close>

definition getCategories :: "storage \<Rightarrow> jsstring list" where
  "getCategories st =
     getStorageData (categories st)
       [[0x98DF, 0x8CBB], [0x4EA4, 0x901A], [0x5149, 0x71B1, 0x8CBB], [0x305D, 0x306E, 0x4ED6]]"

section \<open>Filtering\<close>

text \<open>
  \<^verbatim>\<open>Array.prototype.sort\<close> with a comparison function is stable (ECMAScript 2019):
  it is modelled by insertion from the right, which puts an element in front of the
  first one it does not have to follow. For a comparison function that is a consistent
  order this is the result of every host; for one that is not, the host's result is
  implementation-defined and the model's is one of the possible results.
\<close>

fun insertSorted :: "('a \<Rightarrow> 'a \<Rightarrow> int) \<Rightarrow> 'a \<Rightarrow> 'a list \<Rightarrow> 'a list" where
  "insertSorted compareFn x [] = [x]"
| "insertSorted compareFn x (y # ys) =
     (if compareFn x y \<le> 0 then x # y # ys else y # insertSorted compareFn x ys)"

definition arraySort :: "('a \<Rightarrow> 'a \<Rightarrow> int) \<Rightarrow> 'a list \<Rightarrow> 'a list" where
  "arraySort compareFn xs = foldr (insertSorted compareFn) xs []"

text \<open>
  \<^verbatim>\<open>String.prototype.localeCompare\<close> is the host's collation (ECMA-402), not code of
  the repository: \<open>getFilteredRecords\<close> takes it as the parameter \<open>localeCompare\<close>,
  \<open>localeCompare x y\<close> standing for \<^verbatim>\<open>x.localeCompare(y)\<close>.
\<close>

type_synonym collation = "jsstring \<Rightarrow> jsstring \<Rightarrow> int"

definition sentinelAll :: jsstring where
  "sentinelAll = ascii ''ALL''"

definition defaultFilters :: filterState where
  "defaultFilters = \<lparr>from' = [], to' = [], category' = sentinelAll, paymentMethod' = sentinelAll\<rparr>"

definition compareRecords :: "collation \<Rightarrow> expense \<Rightarrow> expense \<Rightarrow> int" where
  "compareRecords localeCompare a b =
     (if date a \<noteq> date b then localeCompare (date b) (date a)
      else localeCompare (id' b) (id' a))"

definition getFilteredRecords :: "collation \<Rightarrow> storage \<Rightarrow> expense list" where
  "getFilteredRecords localeCompare st =
     (let recs = getStorageData (records st) [];
          fs = getStorageData (filters st) defaultFilters;
          filtered0 = recs;
          filtered1 = (if from' fs \<noteq> [] then filter (\<lambda>r. date r \<ge> from' fs) filtered0
                       else filtered0);
          filtered2 = (if to' fs \<noteq> [] then filter (\<lambda>r. date r \<le> to' fs) filtered1
                       else filtered1);
          filtered3 = (if category' fs \<noteq> sentinelAll
                       then filter (\<lambda>r. category r = category' fs) filtered2
                       else filtered2);
          filtered4 = (if paymentMethod' fs \<noteq> sentinelAll
                       then filter (\<lambda>r. paymentMethod r = paymentMethod' fs) filtered3
                       else filtered3)
      in arraySort (compareRecords localeCompare) filtered4)"

section \<open>Aggregation\<close>

text \<open>
  The aggregation functions run on the records read back from storage, where a
  \<^verbatim>\<open>NaN\<close> amount has become \<^verbatim>\<open>null\<close>; \<^verbatim>\<open>sum + null\<close> is \<^verbatim>\<open>sum\<close>.
\<close>

definition amountValue :: "number \<Rightarrow> int" where
  "amountValue a = (case a of None \<Rightarrow> 0 | Some n \<Rightarrow> n)"

definition calculateTotal :: "expense list \<Rightarrow> int" where
  "calculateTotal recs = foldl (\<lambda>sum r. sum + amountValue (amount r)) 0 recs"

text \<open>
  \<^verbatim>\<open>const summary = {}\<close> is an ordinary object: its own properties, in creation
  order, are an association list, and a key it does not own is looked up on
  \<^verbatim>\<open>Object.prototype\<close>. A property read there is a function or an object
  (\<open>Native\<close>); \<^verbatim>\<open>+=\<close> on it, or on a string, concatenates and gives a string
  (\<open>Text\<close>, whose characters are the host's). Assigning a string to
  \<^verbatim>\<open>__proto__\<close> reaches the inherited setter, which ignores it.
\<close>

datatype property = Number number | Text | Native

type_synonym object = "(jsstring \<times> property) list"

definition protoKey :: jsstring where
  "protoKey = ascii ''__proto__''"

definition objectPrototypeKeys :: "jsstring list" where
  "objectPrototypeKeys =
     map ascii [''constructor'', ''__proto__'', ''hasOwnProperty'', ''isPrototypeOf'',
       ''propertyIsEnumerable'', ''toLocaleString'', ''toString'', ''valueOf'',
       ''__defineGetter__'', ''__defineSetter__'', ''__lookupGetter__'',
       ''__lookupSetter__'']"

definition getProperty :: "object \<Rightarrow> jsstring \<Rightarrow> property option" where
  "getProperty obj k =
     (case map_of obj k of
        Some v \<Rightarrow> Some v
      | None \<Rightarrow> if k \<in> set objectPrototypeKeys then Some Native else None)"

definition setProperty :: "object \<Rightarrow> jsstring \<Rightarrow> property \<Rightarrow> object" where
  "setProperty obj k v = (if k = protoKey then obj else AList.update k v obj)"

fun truthyProperty :: "property option \<Rightarrow> bool" where
  "truthyProperty None = False"
| "truthyProperty (Some (Number None)) = False"
| "truthyProperty (Some (Number (Some n))) = (n \<noteq> 0)"
| "truthyProperty (Some Text) = True"
| "truthyProperty (Some Native) = True"

fun plusAmount :: "property option \<Rightarrow> number \<Rightarrow> property" where
  "plusAmount (Some (Number (Some n))) a = Number (Some (n + amountValue a))"
| "plusAmount (Some (Number None)) a = Number None"
| "plusAmount None a = Number None"
| "plusAmount (Some Text) a = Text"
| "plusAmount (Some Native) a = Text"

text \<open>The body of the \<^verbatim>\<open>forEach\<close> callback, and the loop over the records.\<close>

definition summaryStep :: "object \<Rightarrow> expense \<Rightarrow> object" where
  "summaryStep summary r =
     (let summary1 =
            (if \<not> truthyProperty (getProperty summary (category r))
             then setProperty summary (category r) (Number (Some 0)) else summary)
      in setProperty summary1 (category r)
           (plusAmount (getProperty summary1 (category r)) (amount r)))"

definition calculateCategorySummary :: "expense list \<Rightarrow> object" where
  "calculateCategorySummary recs = foldl summaryStep [] recs"

text \<open>
  \<^verbatim>\<open>Object.entries\<close> lists the keys that are array indices first, in ascending
  numeric order, then the other keys in creation order. \<^verbatim>\<open>renderSummary\<close> sorts
  the entries with \<^verbatim>\<open>(a, b) => b[1] - a[1]\<close>; a difference that is \<^verbatim>\<open>NaN\<close>
  counts as 0.
\<close>

definition arrayIndex :: "jsstring \<Rightarrow> nat option" where
  "arrayIndex k =
     (if k \<noteq> [] \<and> list_all (\<lambda>c. 0x30 \<le> c \<and> c \<le> 0x39) k
         \<and> (hd k \<noteq> 0x30 \<or> length k = 1) \<and> mathematicalValue 10 k < 2 ^ 32 - 1
      then Some (nat (mathematicalValue 10 k)) else None)"

definition objectEntries :: "object \<Rightarrow> (jsstring \<times> property) list" where
  "objectEntries obj =
     sort_key (\<lambda>e. case arrayIndex (fst e) of None \<Rightarrow> 0 | Some i \<Rightarrow> i)
        (filter (\<lambda>e. arrayIndex (fst e) \<noteq> None) obj)
     @ filter (\<lambda>e. arrayIndex (fst e) = None) obj"

fun minusProperty :: "property \<Rightarrow> property \<Rightarrow> int" where
  "minusProperty (Number (Some x)) (Number (Some y)) = x - y"
| "minusProperty x y = 0"

definition categorySummaryRows :: "expense list \<Rightarrow> (jsstring \<times> property) list" where
  "categorySummaryRows recs =
     arraySort (\<lambda>a b. minusProperty (snd b) (snd a))
       (objectEntries (calculateCategorySummary recs))"

section \<open>The Apps Script endpoint\<close>

text \<open>
  The sheet is the list of its rows up to the last one with content, a row the list of
  its cells; the spreadsheet service is taken to be available and to keep the values
  written to a cell as they are. \<^verbatim>\<open>getDataRange().getValues()\<close> of an empty sheet
  is one row with one empty cell; a cell beyond the end of a row reads as
  \<^verbatim>\<open>undefined\<close>, which is \<open>Null\<close> here.
\<close>

type_synonym row = "jsvalue list"
type_synonym sheet = "row list"

fun truthy :: "jsvalue \<Rightarrow> bool" where
  "truthy (Str s) = (s \<noteq> [])"
| "truthy (Num n) = (n \<noteq> 0)"
| "truthy Null = False"

definition orEmptyValue :: "jsvalue \<Rightarrow> jsvalue" where
  "orEmptyValue v = (if truthy v then v else Str [])"

definition cell :: "row \<Rightarrow> nat \<Rightarrow> jsvalue" where
  "cell r j = (if j < length r then r ! j else Null)"

definition getValues :: "sheet \<Rightarrow> row list" where
  "getValues sh = (if sh = [] then [[Str []]] else sh)"

definition getLastRow :: "sheet \<Rightarrow> nat" where
  "getLastRow sh = length sh"

definition headerRow :: row where
  "headerRow =
     map (\<lambda>s. Str (ascii s))
       [''id'', ''date'', ''category'', ''paymentMethod'', ''amount'', ''memo'']"

text \<open>
  \<^verbatim>\<open>getRange(row, 1, n, 6).setValues(values)\<close> overwrites the \<open>n\<close> rows from
  \<open>row\<close> on (rows are numbered from 1), and \<^verbatim>\<open>deleteRows(row, n)\<close> removes them.
\<close>

definition setValues :: "sheet \<Rightarrow> nat \<Rightarrow> row list \<Rightarrow> sheet" where
  "setValues sh rowPosition vals =
     take (rowPosition - 1) (sh @ replicate (rowPosition - 1 - length sh) [])
     @ vals @ drop (rowPosition - 1 + length vals) sh"

definition deleteRows :: "sheet \<Rightarrow> nat \<Rightarrow> nat \<Rightarrow> sheet" where
  "deleteRows sh rowPosition howMany =
     take (rowPosition - 1) sh @ drop (rowPosition - 1 + howMany) sh"

definition setupSheet :: "sheet \<Rightarrow> sheet" where
  "setupSheet sh = setValues sh 1 [headerRow]"

definition recordRow :: "jsonRecord \<Rightarrow> row" where
  "recordRow r =
     [jid r, jdate r, jcategory r, jpaymentMethod r, jamount r, orEmptyValue (jmemo r)]"

text \<open>\<^verbatim>\<open>doGet\<close>: the loop over the rows after the header is \<open>rowsToRecords\<close>.\<close>

fun rowsToRecords :: "row list \<Rightarrow> jsonRecord list" where
  "rowsToRecords [] = []"
| "rowsToRecords (r # rs) =
     (if truthy (cell r 0)
      then \<lparr>jid = cell r 0, jdate = cell r 1, jcategory = cell r 2,
            jpaymentMethod = cell r 3, jamount = cell r 4,
            jmemo = orEmptyValue (cell r 5)\<rparr> # rowsToRecords rs
      else rowsToRecords rs)"

definition doGet :: "sheet \<Rightarrow> response" where
  "doGet sh =
     (let data = getValues sh;
          recs = rowsToRecords (drop 1 data)
      in \<lparr>success = True, records' = Some recs\<rparr>)"

definition addRecord :: "sheet \<Rightarrow> jsonRecord \<Rightarrow> sheet" where
  "addRecord sh r =
     (let lastRow = getLastRow sh; newRow = lastRow + 1
      in setValues sh newRow [recordRow r])"

text \<open>
  \<open>updateRecord\<close> and \<open>deleteRecord\<close> search the rows after the header (index \<open>i\<close>
  from 1 in the data, sheet row \<open>i + 1\<close>) and throw when none carries the id: \<open>None\<close>.
\<close>

definition updateRecord :: "sheet \<Rightarrow> jsonRecord \<Rightarrow> sheet option" where
  "updateRecord sh r =
     (let data = getValues sh in
      case findIndex (\<lambda>d. cell d 0 = jid r) (drop 1 data) of
        None \<Rightarrow> None
      | Some k \<Rightarrow> (let i = k + 1; row = i + 1 in Some (setValues sh row [recordRow r])))"

definition deleteRecord :: "sheet \<Rightarrow> jsvalue \<Rightarrow> sheet option" where
  "deleteRecord sh recordId =
     (let data = getValues sh in
      case findIndex (\<lambda>d. cell d 0 = recordId) (drop 1 data) of
        None \<Rightarrow> None
      | Some k \<Rightarrow> (let i = k + 1; row = i + 1 in Some (deleteRows sh row 1)))"

definition syncRecords :: "sheet \<Rightarrow> jsonRecord list \<Rightarrow> sheet" where
  "syncRecords sh recs =
     (let lastRow = getLastRow sh;
          sh1 = (if lastRow > 1 then deleteRows sh 2 (lastRow - 1) else sh);
          sh2 = (if lastRow = 0 then setupSheet sh1 else sh1)
      in if length recs > 0 then setValues sh2 2 (map recordRow recs) else sh2)"

definition doPost :: "sheet \<Rightarrow> action \<Rightarrow> response \<times> sheet" where
  "doPost sh act =
     (case act of
        Add r \<Rightarrow> (\<lparr>success = True, records' = None\<rparr>, addRecord sh r)
      | Update r \<Rightarrow>
          (case updateRecord sh r of
             None \<Rightarrow> (\<lparr>success = False, records' = None\<rparr>, sh)
           | Some sh' \<Rightarrow> (\<lparr>success = True, records' = None\<rparr>, sh'))
      | Delete recordId \<Rightarrow>
          (case deleteRecord sh recordId of
             None \<Rightarrow> (\<lparr>success = False, records' = None\<rparr>, sh)
           | Some sh' \<Rightarrow> (\<lparr>success = True, records' = None\<rparr>, sh'))
      | Sync recs \<Rightarrow> (\<lparr>success = True, records' = None\<rparr>, syncRecords sh recs)
      | Invalid \<Rightarrow> (\<lparr>success = False, records' = None\<rparr>, sh))"

text \<open>
  The deployed script behind \<^verbatim>\<open>GAS_WEB_APP_URL\<close>, reached over a transport that
  delivers every request and every response: an instance of \<open>fetch\<close> whose remote
  state is the sheet.
\<close>

definition gasFetch :: "sheet fetch" where
  "gasFetch req sh =
     (case req of
        GET \<Rightarrow> (Json (doGet sh), sh)
      | POST act \<Rightarrow> (let (resp, sh') = doPost sh act in (Json resp, sh')))"

text \<open>A transport that fails on every call.\<close>

definition offline :: "'srv fetch" where
  "offline req srv = (Threw, srv)"

section \<open>Observations and example data\<close>

text \<open>
  What a caller and the local store see of a mutation: its return value and the storage
  afterwards, the remote state left out. \<open>storedRecords\<close> is the record list as every
  function of Record Store reads it.
\<close>

definition localOutcome :: "'a \<times> storage \<times> 'srv \<Rightarrow> 'a \<times> storage" where
  "localOutcome out = (fst out, fst (snd out))"

definition storedRecords :: "storage \<Rightarrow> expense list" where
  "storedRecords st = getStorageData (records st) []"

definition storedCategories :: "storage \<Rightarrow> jsstring list" where
  "storedCategories st = getStorageData (categories st) []"

text \<open>The record with id \<open>recordId\<close> that the form data \<open>x\<close> describes.\<close>

definition recordOf :: "expenseData \<Rightarrow> jsstring \<Rightarrow> expense" where
  "recordOf x recordId =
     \<lparr>date = date x, category = category x, paymentMethod = paymentMethod x,
      amount = parseInt (amount x), memo = orEmpty (memo x), id' = recordId\<rparr>"

definition cfgOn :: config where
  "cfgOn =
     \<lparr>GAS_WEB_APP_URL = ascii ''https://script.example/exec'', SPREADSHEET_ENABLED = True\<rparr>"

text \<open>
  The two categories of the specification's aggregation example, in code units
  (U+98DF U+8CBB and U+4EA4 U+901A), and records, stores and form data for the examples.
\<close>

definition shokuhi :: jsstring where
  "shokuhi = [0x98DF, 0x8CBB]"

definition kotsu :: jsstring where
  "kotsu = [0x4EA4, 0x901A]"

definition lunch :: expense where
  "lunch =
     \<lparr>date = ascii ''2024-01-02'', category = shokuhi, paymentMethod = ascii ''cash'',
      amount = Some 100, memo = [], id' = ascii ''lr1a''\<rparr>"

definition taxi :: expense where
  "taxi =
     \<lparr>date = ascii ''2024-01-03'', category = kotsu, paymentMethod = ascii ''card'',
      amount = Some 30, memo = ascii ''late'', id' = ascii ''lr2b''\<rparr>"

definition twoRecords :: storage where
  "twoRecords = \<lparr>records = Some [lunch, taxi], categories = None, filters = None\<rparr>"

definition duplicatedIds :: storage where
  "duplicatedIds =
     \<lparr>records = Some [lunch, taxi\<lparr>id' := ascii ''lr1a''\<rparr>], categories = None,
      filters = None\<rparr>"

definition formData :: expenseData where
  "formData =
     \<lparr>date = ascii ''2024-01-05'', category = shokuhi, paymentMethod = ascii ''cash'',
      amount = ascii ''1200'', memo = None\<rparr>"

definition seeded :: storage where
  "seeded = \<lparr>records = Some [lunch], categories = Some [shokuhi, kotsu], filters = None\<rparr>"

definition noId :: expense where
  "noId = lunch\<lparr>id' := []\<rparr>"

definition sheetWithBlankId :: sheet where
  "sheetWithBlankId =
     [headerRow, recordRow (toJson lunch), recordRow (toJson noId), recordRow (toJson taxi)]"

text \<open>
  The comparison the specification names for the sort: the lexicographic order of the
  code units, as the three-way result a comparison function returns. A collation agrees
  with it on a set of strings when it has the same sign on every pair of them.
\<close>

definition codeUnitCompare :: collation where
  "codeUnitCompare x y = (if x < y then - 1 else if x = y then 0 else 1)"

definition agreesWithCodeUnits :: "collation \<Rightarrow> jsstring set \<Rightarrow> bool" where
  "agreesWithCodeUnits localeCompare S =
     (\<forall>x \<in> S. \<forall>y \<in> S. sgn (localeCompare x y) = codeUnitCompare x y)"

text \<open>
  A comparison function is a consistent order on a list when, on its elements, it is
  total and transitive as "does not have to follow": what ECMAScript asks of the
  function handed to \<^verbatim>\<open>sort\<close> for the result to be defined.
\<close>

definition consistentOn :: "('a \<Rightarrow> 'a \<Rightarrow> int) \<Rightarrow> 'a list \<Rightarrow> bool" where
  "consistentOn compareFn xs =
     (list_all (\<lambda>a. list_all (\<lambda>b. compareFn a b \<le> 0 \<or> compareFn b a \<le> 0) xs) xs
      \<and> list_all (\<lambda>a. list_all (\<lambda>b. list_all (\<lambda>c.
            compareFn a b \<le> 0 \<and> compareFn b c \<le> 0 \<longrightarrow> compareFn a c \<le> 0) xs) xs) xs)"

text \<open>The strings \<open>getFilteredRecords\<close> hands to the collation: the dates and the ids.\<close>

definition comparedStrings :: "expense list \<Rightarrow> jsstring set" where
  "comparedStrings recs = date ` set recs \<union> id' ` set recs"

definition activeFilters :: "storage \<Rightarrow> filterState" where
  "activeFilters st = getStorageData (filters st) defaultFilters"

text \<open>
  The filter and the order in the words of the specification: the date within the
  bounds that are not empty, the category and the payment method equal to the filter's
  unless that is \<^verbatim>\<open>"ALL"\<close>; later dates first and, among equal dates, greater ids
  first.
\<close>

definition matchesFilter :: "filterState \<Rightarrow> expense \<Rightarrow> bool" where
  "matchesFilter fs r =
     ((from' fs = [] \<or> from' fs \<le> date r)
      \<and> (to' fs = [] \<or> date r \<le> to' fs)
      \<and> (category' fs = sentinelAll \<or> category r = category' fs)
      \<and> (paymentMethod' fs = sentinelAll \<or> paymentMethod r = paymentMethod' fs))"

definition newestFirst :: "expense \<Rightarrow> expense \<Rightarrow> bool" where
  "newestFirst a b = (date b < date a \<or> (date a = date b \<and> id' b \<le> id' a))"

text \<open>
  A collation that is not the code unit order, after the Unicode collation hosts use
  for \<^verbatim>\<open>localeCompare\<close>, on strings of ASCII letters and digits: letters compare
  alphabetically first, whatever their case, and only then lower case before upper case.
  So \<^verbatim>\<open>"a".localeCompare("B")\<close> is negative, while the code unit of \<^verbatim>\<open>B\<close> is
  the smaller one.
\<close>

definition foldCase :: "codeUnit \<Rightarrow> codeUnit" where
  "foldCase c = (if 0x41 \<le> c \<and> c \<le> 0x5A then c + 0x20 else c)"

definition alphabeticCompare :: collation where
  "alphabeticCompare x y =
     (let primary = codeUnitCompare (map foldCase x) (map foldCase y)
      in if primary \<noteq> 0 then primary else codeUnitCompare y x)"

definition mixedCaseIds :: storage where
  "mixedCaseIds =
     \<lparr>records = Some [lunch\<lparr>id' := ascii ''a''\<rparr>, lunch\<lparr>id' := ascii ''B''\<rparr>],
      categories = None, filters = None\<rparr>"

text \<open>
  Records dated 2024-01-01 to 2024-01-05, stored out of order, under the filter from
  2024-01-02 to 2024-01-04.
\<close>

definition january :: "string \<Rightarrow> string \<Rightarrow> expense" where
  "january day ident =
     \<lparr>date = ascii ''2024-01-'' @ ascii day, category = shokuhi,
      paymentMethod = ascii ''cash'', amount = Some 100, memo = [], id' = ascii ident\<rparr>"

definition januaryStore :: storage where
  "januaryStore =
     \<lparr>records = Some [january ''03'' ''lr3c'', january ''01'' ''lr1a'', january ''05'' ''lr5e'',
                       january ''02'' ''lr2b'', january ''04'' ''lr4d''],
      categories = None,
      filters = Some \<lparr>from' = ascii ''2024-01-02'', to' = ascii ''2024-01-04'',
                       category' = sentinelAll, paymentMethod' = sentinelAll\<rparr>\<rparr>"

text \<open>
  The sum per category in the words of the specification, and the number a property of
  the summary holds.
\<close>

definition categoryTotal :: "expense list \<Rightarrow> jsstring \<Rightarrow> int" where
  "categoryTotal recs c =
     sum_list (map (\<lambda>r. amountValue (amount r)) (filter (\<lambda>r. category r = c) recs))"

fun summedAmount :: "property \<Rightarrow> int" where
  "summedAmount (Number (Some n)) = n"
| "summedAmount p = 0"

text \<open>
  A summary in which every property is a number, and the number it holds for a key
  (0 when it has none).
\<close>

definition numeric :: "object \<Rightarrow> bool" where
  "numeric obj = (\<forall>e \<in> set obj. \<exists>n. snd e = Number (Some n))"

definition held :: "object \<Rightarrow> jsstring \<Rightarrow> int" where
  "held obj k = (case map_of obj k of Some p \<Rightarrow> summedAmount p | None \<Rightarrow> 0)"

definition dinner :: expense where
  "dinner = lunch\<lparr>amount := Some 50, id' := ascii ''lr3c''\<rparr>"

definition constructorKey :: jsstring where
  "constructorKey = ascii ''constructor''"

section \<open>Record Store: local mutations\<close>

lemma addExpense_local:
  "fst (addExpense cfg fetch newId x st srv) = recordOf x newId"
  "fst (snd (addExpense cfg fetch newId x st srv)) =
     st\<lparr>records := Some (storedRecords st @ [recordOf x newId])\<rparr>"
  by (simp_all add: addExpense_def recordOf_def storedRecords_def Let_def split: prod.splits)

lemma deleteExpense_local:
  "fst (snd (deleteExpense cfg fetch rid st srv)) =
     st\<lparr>records := Some (filter (\<lambda>r. id' r \<noteq> rid) (storedRecords st))\<rparr>"
  by (simp add: deleteExpense_def storedRecords_def Let_def split: prod.splits)

lemma replaced_fields:
  "(r::expense)\<lparr>date := d, category := c, paymentMethod := p, amount := a, memo := m\<rparr> =
     \<lparr>date = d, category = c, paymentMethod = p, amount = a, memo = m, id' = id' r\<rparr>"
  by (cases r) simp

lemma updateExpense_local:
  "localOutcome (updateExpense cfg fetch rid x st srv) =
     (case findIndex (\<lambda>r. id' r = rid) (storedRecords st) of
        None \<Rightarrow> (None, st)
      | Some i \<Rightarrow>
          (let recs' = (storedRecords st)[i := recordOf x (id' (storedRecords st ! i))]
           in (Some (recs' ! i), st\<lparr>records := Some recs'\<rparr>)))"
  by (simp add: updateExpense_def localOutcome_def storedRecords_def recordOf_def
      replaced_fields Let_def split: prod.splits option.splits)

lemma findIndex_None: "findIndex p xs = None \<longleftrightarrow> (\<forall>x\<in>set xs. \<not> p x)"
  by (induction xs) auto

lemma findIndex_Some:
  "findIndex p xs = Some i \<Longrightarrow> i < length xs \<and> p (xs ! i) \<and> (\<forall>j<i. \<not> p (xs ! j))"
proof (induction xs arbitrary: i)
  case Nil
  then show ?case by simp
next
  case (Cons x xs)
  show ?case
  proof (cases "p x")
    case True
    with Cons.prems show ?thesis by simp
  next
    case False
    with Cons.prems obtain k where k: "findIndex p xs = Some k" "i = Suc k"
      by auto
    from Cons.IH[OF k(1)] False k(2) show ?thesis
      by (auto simp: less_Suc_eq_0_disj)
  qed
qed

text \<open>
  C1. Whatever answers the remote call, and whether the call succeeds, is refused by the
  remote or fails in transport, \<open>addExpense\<close>, \<open>updateExpense\<close> and \<open>deleteExpense\<close>
  return the same value and leave the same local storage: two runs that differ only in
  \<open>fetch\<close> and in the remote state agree on both. The added record stays appended and
  the deleted records stay removed, so no remote outcome rolls the local change back.
\<close>

theorem local_mutation_independent_of_remote:
  fixes fetch1 :: "'s1 fetch" and fetch2 :: "'s2 fetch"
  shows "localOutcome (addExpense cfg fetch1 newId x st srv1) =
           localOutcome (addExpense cfg fetch2 newId x st srv2)
       \<and> localOutcome (updateExpense cfg fetch1 rid x st srv1) =
           localOutcome (updateExpense cfg fetch2 rid x st srv2)
       \<and> localOutcome (deleteExpense cfg fetch1 rid st srv1) =
           localOutcome (deleteExpense cfg fetch2 rid st srv2)
       \<and> storedRecords (fst (snd (addExpense cfg fetch1 newId x st srv1))) =
           storedRecords st @ [fst (addExpense cfg fetch1 newId x st srv1)]
       \<and> storedRecords (fst (snd (deleteExpense cfg fetch1 rid st srv1))) =
           filter (\<lambda>r. id' r \<noteq> rid) (storedRecords st)"
proof -
  have "localOutcome (addExpense cfg fetch1 newId x st srv1) =
          localOutcome (addExpense cfg fetch2 newId x st srv2)"
    by (simp add: localOutcome_def addExpense_local)
  moreover have "localOutcome (updateExpense cfg fetch1 rid x st srv1) =
          localOutcome (updateExpense cfg fetch2 rid x st srv2)"
    by (simp only: updateExpense_local)
  moreover have "localOutcome (deleteExpense cfg fetch1 rid st srv1) =
          localOutcome (deleteExpense cfg fetch2 rid st srv2)"
    by (simp add: localOutcome_def deleteExpense_local)
  moreover have "storedRecords (fst (snd (addExpense cfg fetch1 newId x st srv1))) =
           storedRecords st @ [fst (addExpense cfg fetch1 newId x st srv1)]"
    by (simp add: addExpense_local) (simp add: storedRecords_def getStorageData_def)
  moreover have "storedRecords (fst (snd (deleteExpense cfg fetch1 rid st srv1))) =
           filter (\<lambda>r. id' r \<noteq> rid) (storedRecords st)"
    by (simp add: deleteExpense_local) (simp add: storedRecords_def getStorageData_def)
  ultimately show ?thesis by blast
qed

theorem local_mutation_independent_of_remote_witness:
  "localOutcome (addExpense cfgOn gasFetch (ascii ''lr3c'') formData twoRecords [headerRow]) =
     localOutcome (addExpense cfgOn offline (ascii ''lr3c'') formData twoRecords ())
   \<and> localOutcome (updateExpense cfgOn gasFetch (ascii ''lr2b'') formData twoRecords [headerRow]) =
     localOutcome (updateExpense cfgOn offline (ascii ''lr2b'') formData twoRecords ())
   \<and> localOutcome (deleteExpense cfgOn gasFetch (ascii ''lr2b'') twoRecords [headerRow]) =
     localOutcome (deleteExpense cfgOn offline (ascii ''lr2b'') twoRecords ())
   \<and> storedRecords (fst (snd (addExpense cfgOn gasFetch (ascii ''lr3c'') formData twoRecords [headerRow]))) =
       storedRecords twoRecords @ [fst (addExpense cfgOn gasFetch (ascii ''lr3c'') formData twoRecords [headerRow])]
   \<and> storedRecords (fst (snd (deleteExpense cfgOn gasFetch (ascii ''lr2b'') twoRecords [headerRow]))) =
       filter (\<lambda>r. id' r \<noteq> ascii ''lr2b'') (storedRecords twoRecords)"
  by (rule local_mutation_independent_of_remote)

text \<open>
  In these two runs the remote outcomes do differ: the deployed script appends the row,
  the failing transport leaves the sheet alone, and an update is acknowledged only when
  the sheet has the row.
\<close>

lemma remote_outcomes_differ:
  "snd (snd (addExpense cfgOn gasFetch (ascii ''lr3c'') formData twoRecords [headerRow])) =
     [headerRow, recordRow (toJson (recordOf formData (ascii ''lr3c'')))]
   \<and> snd (snd (addExpense cfgOn offline (ascii ''lr3c'') formData twoRecords [headerRow])) = [headerRow]
   \<and> fst (updateRecordInSpreadsheet cfgOn gasFetch taxi [headerRow]) = False
   \<and> fst (updateRecordInSpreadsheet cfgOn gasFetch taxi [headerRow, recordRow (toJson taxi)]) = True
   \<and> fst (updateRecordInSpreadsheet cfgOn offline taxi [headerRow, recordRow (toJson taxi)]) = False"
  by code_simp

lemma twoRecords_ids:
  "ascii ''lr2b'' \<in> id' ` set (storedRecords twoRecords)"
  "ascii ''zz'' \<notin> id' ` set (storedRecords twoRecords)"
  "storedRecords twoRecords = [lunch, taxi]"
  "id' lunch \<noteq> ascii ''lr2b''"
  by (simp_all add: storedRecords_def twoRecords_def getStorageData_def lunch_def taxi_def ascii_def)

text \<open>
  C3. \<open>updateExpense\<close> on an id some stored record carries replaces the first such
  record by the record the form data describes (date, category, payment method, the
  amount \<open>parseInt\<close> reads and the memo or the empty string) under the same id, keeps
  every other position of the list as it is, and returns the new record. On an id no
  record carries it returns \<^verbatim>\<open>null\<close> and leaves the storage as it is.
\<close>

theorem updateExpense_replaces_one_record:
  fixes fetch :: "'srv fetch"
  shows "(rid \<in> id' ` set (storedRecords st) \<longrightarrow>
           (\<exists>i < length (storedRecords st).
              id' (storedRecords st ! i) = rid
            \<and> (\<forall>j < i. id' (storedRecords st ! j) \<noteq> rid)
            \<and> fst (updateExpense cfg fetch rid x st srv) = Some (recordOf x rid)
            \<and> fst (snd (updateExpense cfg fetch rid x st srv)) =
                 st\<lparr>records := Some ((storedRecords st)[i := recordOf x rid])\<rparr>))
       \<and> (rid \<notin> id' ` set (storedRecords st) \<longrightarrow>
            fst (updateExpense cfg fetch rid x st srv) = None
          \<and> fst (snd (updateExpense cfg fetch rid x st srv)) = st)"
proof (cases "findIndex (\<lambda>r. id' r = rid) (storedRecords st)")
  case None
  then have absent: "rid \<notin> id' ` set (storedRecords st)"
    by (auto simp: findIndex_None)
  from None have "localOutcome (updateExpense cfg fetch rid x st srv) = (None, st)"
    by (simp add: updateExpense_local)
  with absent show ?thesis
    by (simp add: localOutcome_def)
next
  case (Some i)
  from findIndex_Some[OF Some]
  have i: "i < length (storedRecords st)" "id' (storedRecords st ! i) = rid"
    "\<forall>j<i. id' (storedRecords st ! j) \<noteq> rid"
    by auto
  then have present: "rid \<in> id' ` set (storedRecords st)"
    by (metis imageI nth_mem)
  from Some i(2) have "localOutcome (updateExpense cfg fetch rid x st srv) =
      (Some ((storedRecords st)[i := recordOf x rid] ! i),
       st\<lparr>records := Some ((storedRecords st)[i := recordOf x rid])\<rparr>)"
    by (simp add: updateExpense_local Let_def)
  with i(1) have "fst (updateExpense cfg fetch rid x st srv) = Some (recordOf x rid)"
    "fst (snd (updateExpense cfg fetch rid x st srv)) =
       st\<lparr>records := Some ((storedRecords st)[i := recordOf x rid])\<rparr>"
    by (simp_all add: localOutcome_def)
  with i present show ?thesis by blast
qed

theorem updateExpense_replaces_one_record_witness:
  "ascii ''lr2b'' \<in> id' ` set (storedRecords twoRecords)
   \<and> fst (updateExpense cfgOn gasFetch (ascii ''lr2b'') formData twoRecords [headerRow]) =
       Some (recordOf formData (ascii ''lr2b''))
   \<and> storedRecords (fst (snd (updateExpense cfgOn gasFetch (ascii ''lr2b'') formData twoRecords [headerRow]))) =
       [lunch, recordOf formData (ascii ''lr2b'')]
   \<and> ascii ''zz'' \<notin> id' ` set (storedRecords twoRecords)
   \<and> fst (updateExpense cfgOn gasFetch (ascii ''zz'') formData twoRecords [headerRow]) = None
   \<and> fst (snd (updateExpense cfgOn gasFetch (ascii ''zz'') formData twoRecords [headerRow])) = twoRecords"
proof -
  note present = twoRecords_ids(1) and absent = twoRecords_ids(2)
  from updateExpense_replaces_one_record[of "ascii ''lr2b''" twoRecords cfgOn gasFetch formData "[headerRow]"] present
  obtain i where i: "i < length (storedRecords twoRecords)"
      "\<forall>j < i. id' (storedRecords twoRecords ! j) \<noteq> ascii ''lr2b''"
      "id' (storedRecords twoRecords ! i) = ascii ''lr2b''"
      "fst (updateExpense cfgOn gasFetch (ascii ''lr2b'') formData twoRecords [headerRow]) =
         Some (recordOf formData (ascii ''lr2b''))"
      "fst (snd (updateExpense cfgOn gasFetch (ascii ''lr2b'') formData twoRecords [headerRow])) =
         twoRecords\<lparr>records := Some ((storedRecords twoRecords)[i := recordOf formData (ascii ''lr2b'')])\<rparr>"
    by blast
  from i(1,3) have "i = 1"
    using twoRecords_ids(4) by (auto simp: twoRecords_ids(3) less_Suc_eq)
  with i(5) have stored: "storedRecords (fst (snd (updateExpense cfgOn gasFetch (ascii ''lr2b'') formData twoRecords [headerRow]))) =
       [lunch, recordOf formData (ascii ''lr2b'')]"
    by (simp add: twoRecords_ids(3)) (simp add: storedRecords_def getStorageData_def)
  from updateExpense_replaces_one_record[of "ascii ''zz''" twoRecords cfgOn gasFetch formData "[headerRow]"] absent
  have "fst (updateExpense cfgOn gasFetch (ascii ''zz'') formData twoRecords [headerRow]) = None"
    "fst (snd (updateExpense cfgOn gasFetch (ascii ''zz'') formData twoRecords [headerRow])) = twoRecords"
    by blast+
  with present absent i(4) stored show ?thesis by blast
qed

lemma length_filter_distinct_key:
  "distinct (map f xs) \<Longrightarrow> y \<in> f ` set xs \<Longrightarrow> length (filter (\<lambda>x. f x \<noteq> y) xs) + 1 = length xs"
proof (induction xs)
  case Nil
  then show ?case by simp
next
  case (Cons x xs)
  show ?case
  proof (cases "f x = y")
    case True
    with Cons.prems(1) have "\<forall>z\<in>set xs. f z \<noteq> y" by (auto simp: image_iff)
    then have "filter (\<lambda>x. f x \<noteq> y) xs = xs" by (simp add: filter_id_conv)
    with True show ?thesis by simp
  next
    case False
    with Cons show ?thesis by auto
  qed
qed

text \<open>
  C2, as the code has it. \<open>deleteExpense\<close> stores the records whose id differs from the
  given one: when the ids are distinct and a record carries the id, the list gets shorter
  by exactly one; when no record carries it, the list stays as it is. It returns
  \<^verbatim>\<open>undefined\<close> whatever the id and the store, so nothing signals a missing id.
\<close>

theorem deleteExpense_removes_matching:
  fixes fetch :: "'s1 fetch" and fetch' :: "'s2 fetch"
  shows "fst (snd (deleteExpense cfg fetch rid st srv)) =
           st\<lparr>records := Some (filter (\<lambda>r. id' r \<noteq> rid) (storedRecords st))\<rparr>
       \<and> (distinct (map id' (storedRecords st)) \<and> rid \<in> id' ` set (storedRecords st) \<longrightarrow>
            length (storedRecords (fst (snd (deleteExpense cfg fetch rid st srv)))) + 1 =
              length (storedRecords st))
       \<and> (rid \<notin> id' ` set (storedRecords st) \<longrightarrow>
            storedRecords (fst (snd (deleteExpense cfg fetch rid st srv))) = storedRecords st)
       \<and> fst (deleteExpense cfg fetch rid st srv) = fst (deleteExpense cfg' fetch' rid' st' srv')"
proof -
  have after: "storedRecords (fst (snd (deleteExpense cfg fetch rid st srv))) =
      filter (\<lambda>r. id' r \<noteq> rid) (storedRecords st)"
    by (simp add: deleteExpense_local) (simp add: storedRecords_def getStorageData_def)
  have absent: "rid \<notin> id' ` set (storedRecords st) \<Longrightarrow>
      filter (\<lambda>r. id' r \<noteq> rid) (storedRecords st) = storedRecords st"
    by (auto simp: filter_id_conv)
  have one: "distinct (map id' (storedRecords st)) \<Longrightarrow> rid \<in> id' ` set (storedRecords st) \<Longrightarrow>
      length (filter (\<lambda>r. id' r \<noteq> rid) (storedRecords st)) + 1 = length (storedRecords st)"
    by (rule length_filter_distinct_key)
  from absent one show ?thesis
    by (simp only: after) (simp add: deleteExpense_local)
qed

theorem deleteExpense_removes_matching_witness:
  "distinct (map id' (storedRecords twoRecords))
   \<and> ascii ''lr2b'' \<in> id' ` set (storedRecords twoRecords)
   \<and> length (storedRecords (fst (snd (deleteExpense cfgOn gasFetch (ascii ''lr2b'') twoRecords [headerRow])))) + 1 =
       length (storedRecords twoRecords)
   \<and> ascii ''zz'' \<notin> id' ` set (storedRecords twoRecords)
   \<and> storedRecords (fst (snd (deleteExpense cfgOn gasFetch (ascii ''zz'') twoRecords [headerRow]))) =
       storedRecords twoRecords"
proof -
  have d: "distinct (map id' (storedRecords twoRecords))"
    by (simp add: twoRecords_ids(3)) (simp add: lunch_def taxi_def ascii_def)
  note lr2b = deleteExpense_removes_matching[of cfgOn gasFetch "ascii ''lr2b''" twoRecords "[headerRow]"]
  note zz = deleteExpense_removes_matching[of cfgOn gasFetch "ascii ''zz''" twoRecords "[headerRow]"]
  have one: "length (storedRecords (fst (snd (deleteExpense cfgOn gasFetch (ascii ''lr2b'') twoRecords [headerRow])))) + 1 =
       length (storedRecords twoRecords)"
    using lr2b[THEN conjunct2, THEN conjunct1] d twoRecords_ids(1) by blast
  have none: "storedRecords (fst (snd (deleteExpense cfgOn gasFetch (ascii ''zz'') twoRecords [headerRow]))) =
       storedRecords twoRecords"
    using zz[THEN conjunct2, THEN conjunct2, THEN conjunct1] twoRecords_ids(2) by blast
  from d twoRecords_ids(1,2) one none show ?thesis by blast
qed

text \<open>
  The claim as stated fails twice: the value returned for an id that no record carries
  is the value returned for one that a record carries, and in a store where two records
  share an id the list gets shorter by two.
\<close>

theorem deleteExpense_not_found_counterexample:
  "fst (deleteExpense cfgOn offline (ascii ''zz'') twoRecords ()) =
     fst (deleteExpense cfgOn offline (ascii ''lr2b'') twoRecords ())
   \<and> ascii ''zz'' \<notin> id' ` set (storedRecords twoRecords)
   \<and> ascii ''lr1a'' \<in> id' ` set (storedRecords duplicatedIds)
   \<and> length (storedRecords (fst (snd (deleteExpense cfgOn offline (ascii ''lr1a'') duplicatedIds ())))) + 2 =
       length (storedRecords duplicatedIds)"
  by (simp add: deleteExpense_local twoRecords_ids)
     (simp add: storedRecords_def getStorageData_def duplicatedIds_def lunch_def taxi_def ascii_def)

text \<open>
  C9. Deleting with the same id a second time, whatever the remote does either time,
  leaves the storage of the first deletion: the first one removes every record that
  carries the id, duplicates included, and nothing is left for the second.
\<close>

theorem deleteExpense_idempotent:
  fixes fetch1 :: "'s1 fetch" and fetch2 :: "'s2 fetch"
  shows "fst (snd (deleteExpense cfg fetch2 rid (fst (snd (deleteExpense cfg fetch1 rid st srv1))) srv2)) =
           fst (snd (deleteExpense cfg fetch1 rid st srv1))
       \<and> rid \<notin> id' ` set (storedRecords (fst (snd (deleteExpense cfg fetch1 rid st srv1))))
       \<and> storedRecords (fst (snd (deleteExpense cfg fetch1 rid st srv1))) =
           filter (\<lambda>r. id' r \<noteq> rid) (storedRecords st)"
  by (simp add: deleteExpense_local) (auto simp add: storedRecords_def getStorageData_def)

theorem deleteExpense_idempotent_witness:
  "fst (snd (deleteExpense cfgOn offline (ascii ''lr1a'') (fst (snd (deleteExpense cfgOn gasFetch (ascii ''lr1a'') duplicatedIds [headerRow]))) ())) =
           fst (snd (deleteExpense cfgOn gasFetch (ascii ''lr1a'') duplicatedIds [headerRow]))
       \<and> ascii ''lr1a'' \<notin> id' ` set (storedRecords (fst (snd (deleteExpense cfgOn gasFetch (ascii ''lr1a'') duplicatedIds [headerRow]))))
       \<and> storedRecords (fst (snd (deleteExpense cfgOn gasFetch (ascii ''lr1a'') duplicatedIds [headerRow]))) =
           filter (\<lambda>r. id' r \<noteq> ascii ''lr1a'') (storedRecords duplicatedIds)"
  by (rule deleteExpense_idempotent)

section \<open>Category Store: adding and removing\<close>

lemma trim_Nil: "trim [] = []"
  by (simp add: trim_def)

lemma category_examples:
  "trim [0x20, 0x3000, 0x09] = []"
  "trim ([0x20] @ shokuhi @ [0x3000]) = shokuhi"
  "trim (ascii '' rent'') = ascii ''rent''"
  "storedCategories seeded = [shokuhi, kotsu]"
  "ascii ''rent'' \<notin> set (storedCategories seeded)"
  "storedRecords seeded = [lunch]"
  by (simp_all add: trim_def isWhiteSpace_def shokuhi_def kotsu_def ascii_def
      storedCategories_def storedRecords_def seeded_def getStorageData_def)

text \<open>
  C7. \<open>addCategory\<close> returns \<^verbatim>\<open>false\<close> and leaves the storage as it is when the
  name is empty, when nothing but white space is left of it after trimming, or when the
  trimmed name is one of the stored categories; in every other case it appends the
  trimmed name to the stored list, persists the list and returns \<^verbatim>\<open>true\<close>.
\<close>

theorem addCategory_rejects_or_appends:
  "(categoryName = [] \<or> trim categoryName = [] \<or> trim categoryName \<in> set (storedCategories st) \<longrightarrow>
      addCategory categoryName st = (False, st))
   \<and> (trim categoryName \<noteq> [] \<and> trim categoryName \<notin> set (storedCategories st) \<longrightarrow>
      addCategory categoryName st =
        (True, st\<lparr>categories := Some (storedCategories st @ [trim categoryName])\<rparr>))"
  by (auto simp: addCategory_def storedCategories_def Let_def trim_Nil)

theorem addCategory_rejects_or_appends_witness:
  "addCategory [0x20, 0x3000, 0x09] seeded = (False, seeded)
   \<and> addCategory ([0x20] @ shokuhi @ [0x3000]) seeded = (False, seeded)
   \<and> addCategory (ascii '' rent'') seeded =
       (True, seeded\<lparr>categories := Some [shokuhi, kotsu, ascii ''rent'']\<rparr>)"
proof -
  have "addCategory [0x20, 0x3000, 0x09] seeded = (False, seeded)"
    using addCategory_rejects_or_appends[of "[0x20, 0x3000, 0x09]" seeded]
    by (simp add: category_examples)
  moreover have "addCategory ([0x20] @ shokuhi @ [0x3000]) seeded = (False, seeded)"
    using addCategory_rejects_or_appends[of "[0x20] @ shokuhi @ [0x3000]" seeded]
    by (simp only: category_examples) simp
  moreover have "addCategory (ascii '' rent'') seeded =
       (True, seeded\<lparr>categories := Some [shokuhi, kotsu, ascii ''rent'']\<rparr>)"
    using addCategory_rejects_or_appends[of "ascii '' rent''" seeded] category_examples(5)
    by (simp only: category_examples) (simp add: ascii_def)
  ultimately show ?thesis by blast
qed

text \<open>
  C10. \<open>deleteCategory\<close> returns \<^verbatim>\<open>true\<close> for every name that no stored record
  uses, without asking for confirmation, and persists the stored categories other than
  the name. For a name that is not among the stored categories either, this is no error:
  the list that is persisted is the list that was read.
\<close>

theorem deleteCategory_unreferenced_succeeds:
  "(categoryName \<notin> category ` set (storedRecords st) \<longrightarrow>
      fst (deleteCategory confirmed categoryName st) = True
    \<and> snd (deleteCategory confirmed categoryName st) =
        st\<lparr>categories := Some (filter (\<lambda>cat. cat \<noteq> categoryName) (storedCategories st))\<rparr>)
   \<and> (categoryName \<notin> category ` set (storedRecords st)
        \<and> categoryName \<notin> set (storedCategories st) \<longrightarrow>
      fst (deleteCategory confirmed categoryName st) = True
    \<and> snd (deleteCategory confirmed categoryName st) =
        st\<lparr>categories := Some (storedCategories st)\<rparr>
    \<and> storedCategories (snd (deleteCategory confirmed categoryName st)) = storedCategories st)"
proof -
  have same: "categoryName \<notin> set (storedCategories st) \<Longrightarrow>
      filter (\<lambda>cat. cat \<noteq> categoryName) (storedCategories st) = storedCategories st"
    by (auto simp: filter_id_conv)
  have unused: "categoryName \<notin> category ` set (storedRecords st) \<Longrightarrow>
      deleteCategory confirmed categoryName st =
        (True, st\<lparr>categories := Some (filter (\<lambda>cat. cat \<noteq> categoryName) (storedCategories st))\<rparr>)"
    by (auto simp: deleteCategory_def storedRecords_def storedCategories_def Let_def list_ex_iff)
  have read: "storedCategories (st\<lparr>categories := Some (storedCategories st)\<rparr>) = storedCategories st"
    by (simp add: storedCategories_def getStorageData_def)
  from same unused read show ?thesis by simp
qed

theorem deleteCategory_unreferenced_succeeds_witness:
  "ascii ''rent'' \<notin> category ` set (storedRecords seeded)
   \<and> ascii ''rent'' \<notin> set (storedCategories seeded)
   \<and> deleteCategory False (ascii ''rent'') seeded = (True, seeded)
   \<and> kotsu \<notin> category ` set (storedRecords seeded)
   \<and> deleteCategory False kotsu seeded = (True, seeded\<lparr>categories := Some [shokuhi]\<rparr>)"
proof -
  have unused: "ascii ''rent'' \<notin> category ` set (storedRecords seeded)"
      "kotsu \<notin> category ` set (storedRecords seeded)"
    by (simp_all add: category_examples) (simp_all add: lunch_def shokuhi_def kotsu_def ascii_def)
  note rent = deleteCategory_unreferenced_succeeds[of "ascii ''rent''" seeded False]
  note kotsu = deleteCategory_unreferenced_succeeds[of kotsu seeded False]
  have "deleteCategory False (ascii ''rent'') seeded =
      (True, seeded\<lparr>categories := Some (storedCategories seeded)\<rparr>)"
    using rent[THEN conjunct2] unused(1) category_examples(5) by (simp add: prod_eq_iff)
  then have a: "deleteCategory False (ascii ''rent'') seeded = (True, seeded)"
    by (simp add: category_examples) (simp add: seeded_def)
  have "deleteCategory False kotsu seeded =
      (True, seeded\<lparr>categories := Some (filter (\<lambda>cat. cat \<noteq> kotsu) (storedCategories seeded))\<rparr>)"
    using kotsu[THEN conjunct1] unused(2) by (simp add: prod_eq_iff)
  then have b: "deleteCategory False kotsu seeded = (True, seeded\<lparr>categories := Some [shokuhi]\<rparr>)"
    by (simp add: category_examples) (simp add: shokuhi_def kotsu_def)
  from unused category_examples(5) a b show ?thesis by blast
qed

section \<open>The remote sheet: fetching and syncing\<close>

lemma rowsToRecords_truthy: "r \<in> set (rowsToRecords rows) \<Longrightarrow> truthy (jid r)"
  by (induction rows) (auto split: if_splits)

lemma rowsToRecords_ids:
  "map jid (rowsToRecords rows) = filter truthy (map (\<lambda>r. cell r 0) rows)"
  by (induction rows) auto

lemma drop_getValues: "drop (Suc 0) (getValues sh) = drop (Suc 0) sh"
  by (simp add: getValues_def)

lemma fetch_gasFetch:
  "fetchRecordsFromSpreadsheet cfg gasFetch sh =
     (if \<not> SPREADSHEET_ENABLED cfg \<or> GAS_WEB_APP_URL cfg = [] then (None, sh)
      else (Some (rowsToRecords (drop (Suc 0) sh)), sh))"
  by (simp add: fetchRecordsFromSpreadsheet_def gasFetch_def doGet_def drop_getValues Let_def)

lemma cfgOn_enabled: "SPREADSHEET_ENABLED cfgOn" "GAS_WEB_APP_URL cfgOn \<noteq> []"
  by (simp_all add: cfgOn_def ascii_def)

lemma recordRow_toJson:
  "recordRow (toJson r) =
     [Str (id' r), Str (date r), Str (category r), Str (paymentMethod r),
      (case amount r of None \<Rightarrow> Null | Some n \<Rightarrow> Num n), Str (memo r)]"
  by (simp add: recordRow_def toJson_def orEmptyValue_def)

lemma cell_of_row:
  "cell [a, b, c, d, e, f] 0 = a" "cell [a, b, c, d, e, f] (Suc 0) = b"
  "cell [a, b, c, d, e, f] 2 = c" "cell [a, b, c, d, e, f] 3 = d"
  "cell [a, b, c, d, e, f] 4 = e" "cell [a, b, c, d, e, f] 5 = f"
  by (simp_all add: cell_def)

lemma rowsToRecords_recordRow:
  "rowsToRecords (map (\<lambda>r. recordRow (toJson r)) recs) =
     map toJson (filter (\<lambda>r. id' r \<noteq> []) recs)"
proof (induction recs)
  case Nil
  show ?case by simp
next
  case (Cons r recs)
  have "rowsToRecords (recordRow (toJson r) # rows) =
      (if id' r = [] then rowsToRecords rows else toJson r # rowsToRecords rows)" for rows
    by (simp add: recordRow_toJson cell_of_row) (simp add: toJson_def orEmptyValue_def)
  with Cons.IH show ?case by simp
qed

text \<open>
  C8. When \<open>fetchRecordsFromSpreadsheet\<close> gets records from the deployed script, every
  one of them has a truthy id, so none has the empty string for id: the ids returned are
  the truthy cells of the first column below the header, in their order, and a row whose
  id cell is empty or otherwise falsy contributes nothing.
\<close>

theorem fetched_records_have_id:
  "fst (fetchRecordsFromSpreadsheet cfg gasFetch sh) = Some recs \<longrightarrow>
     (\<forall>r \<in> set recs. truthy (jid r) \<and> jid r \<noteq> Str [] \<and> jid r \<noteq> Num 0 \<and> jid r \<noteq> Null)
     \<and> map jid recs = filter truthy (map (\<lambda>r. cell r 0) (drop 1 sh))"
proof
  assume "fst (fetchRecordsFromSpreadsheet cfg gasFetch sh) = Some recs"
  then have recs: "recs = rowsToRecords (drop (Suc 0) sh)"
    by (simp add: fetch_gasFetch split: if_splits)
  have "truthy (jid r) \<and> jid r \<noteq> Str [] \<and> jid r \<noteq> Num 0 \<and> jid r \<noteq> Null"
    if "r \<in> set recs" for r
    using rowsToRecords_truthy[of r "drop (Suc 0) sh"] that recs by auto
  with recs show "(\<forall>r \<in> set recs. truthy (jid r) \<and> jid r \<noteq> Str [] \<and> jid r \<noteq> Num 0 \<and> jid r \<noteq> Null)
     \<and> map jid recs = filter truthy (map (\<lambda>r. cell r 0) (drop 1 sh))"
    by (simp add: rowsToRecords_ids)
qed

theorem fetched_records_have_id_witness:
  "fst (fetchRecordsFromSpreadsheet cfgOn gasFetch sheetWithBlankId) = Some [toJson lunch, toJson taxi]
   \<and> map jid [toJson lunch, toJson taxi] = filter truthy (map (\<lambda>r. cell r 0) (drop 1 sheetWithBlankId))
   \<and> truthy (jid (toJson lunch)) \<and> truthy (jid (toJson taxi)) \<and> \<not> truthy (jid (toJson noId))"
proof -
  have "rowsToRecords (map (\<lambda>r. recordRow (toJson r)) [lunch, noId, taxi]) =
      map toJson (filter (\<lambda>r. id' r \<noteq> []) [lunch, noId, taxi])"
    by (rule rowsToRecords_recordRow)
  then have got: "fst (fetchRecordsFromSpreadsheet cfgOn gasFetch sheetWithBlankId) = Some [toJson lunch, toJson taxi]"
    by (simp add: fetch_gasFetch cfgOn_enabled sheetWithBlankId_def)
       (simp add: noId_def lunch_def taxi_def ascii_def)
  from fetched_records_have_id[of cfgOn sheetWithBlankId "[toJson lunch, toJson taxi]"] got
  have "(\<forall>r \<in> set [toJson lunch, toJson taxi]. truthy (jid r) \<and> jid r \<noteq> Str [] \<and> jid r \<noteq> Num 0 \<and> jid r \<noteq> Null)
     \<and> map jid [toJson lunch, toJson taxi] = filter truthy (map (\<lambda>r. cell r 0) (drop 1 sheetWithBlankId))"
    by blast
  moreover have "\<not> truthy (jid (toJson noId))"
    by (simp add: toJson_def noId_def)
  ultimately show ?thesis using got by simp
qed

lemma drop_syncRecords: "drop (Suc 0) (syncRecords sh js) = map recordRow js"
proof -
  consider "length sh = 0" | "length sh = 1" | "length sh > 1" by linarith
  then show ?thesis
  proof cases
    case 1
    then show ?thesis
      by (cases js) (simp_all add: syncRecords_def getLastRow_def setupSheet_def setValues_def Let_def)
  next
    case 2
    then obtain h where "sh = [h]" by (cases sh) auto
    then show ?thesis
      by (cases js) (simp_all add: syncRecords_def getLastRow_def setValues_def Let_def)
  next
    case 3
    then obtain h r rest where "sh = h # r # rest" by (cases sh; cases "tl sh") auto
    then show ?thesis
      by (cases js) (simp_all add: syncRecords_def getLastRow_def setValues_def deleteRows_def Let_def)
  qed
qed

lemma sync_gasFetch:
  "SPREADSHEET_ENABLED cfg \<Longrightarrow> GAS_WEB_APP_URL cfg \<noteq> [] \<Longrightarrow>
   syncRecordsToSpreadsheet cfg gasFetch recs sh = (True, syncRecords sh (map toJson recs))"
  by (simp add: syncRecordsToSpreadsheet_def gasFetch_def doPost_def)

text \<open>
  C5, as the code has it. With sync enabled and an endpoint configured, and the deployed
  script answering both calls, \<open>syncRecordsToSpreadsheet\<close> is acknowledged and a
  following \<open>fetchRecordsFromSpreadsheet\<close> returns the pushed records whose id is not
  empty, in the pushed order, whatever the sheet held before. When no pushed record has
  an empty id these are all the pushed records, so the two record sets are equal.
\<close>

theorem sync_then_fetch_round_trip:
  "SPREADSHEET_ENABLED cfg \<and> GAS_WEB_APP_URL cfg \<noteq> [] \<longrightarrow>
     fst (syncRecordsToSpreadsheet cfg gasFetch recs sh) = True
   \<and> fst (fetchRecordsFromSpreadsheet cfg gasFetch
            (snd (syncRecordsToSpreadsheet cfg gasFetch recs sh))) =
       Some (map toJson (filter (\<lambda>r. id' r \<noteq> []) recs))
   \<and> ([] \<notin> id' ` set recs \<longrightarrow>
        fst (fetchRecordsFromSpreadsheet cfg gasFetch
            (snd (syncRecordsToSpreadsheet cfg gasFetch recs sh))) = Some (map toJson recs)
      \<and> map_option set (fst (fetchRecordsFromSpreadsheet cfg gasFetch
            (snd (syncRecordsToSpreadsheet cfg gasFetch recs sh)))) = Some (toJson ` set recs))"
proof
  assume on: "SPREADSHEET_ENABLED cfg \<and> GAS_WEB_APP_URL cfg \<noteq> []"
  then have sync: "syncRecordsToSpreadsheet cfg gasFetch recs sh = (True, syncRecords sh (map toJson recs))"
    by (simp add: sync_gasFetch)
  have "rowsToRecords (drop (Suc 0) (syncRecords sh (map toJson recs))) =
      map toJson (filter (\<lambda>r. id' r \<noteq> []) recs)"
    using rowsToRecords_recordRow[of recs] by (simp add: drop_syncRecords comp_def)
  with on have fetched: "fst (fetchRecordsFromSpreadsheet cfg gasFetch
            (snd (syncRecordsToSpreadsheet cfg gasFetch recs sh))) =
       Some (map toJson (filter (\<lambda>r. id' r \<noteq> []) recs))"
    by (simp add: sync fetch_gasFetch)
  have "[] \<notin> id' ` set recs \<Longrightarrow> filter (\<lambda>r. id' r \<noteq> []) recs = recs"
    by (metis (mono_tags, lifting) filter_True imageI)
  with sync fetched show "fst (syncRecordsToSpreadsheet cfg gasFetch recs sh) = True
   \<and> fst (fetchRecordsFromSpreadsheet cfg gasFetch
            (snd (syncRecordsToSpreadsheet cfg gasFetch recs sh))) =
       Some (map toJson (filter (\<lambda>r. id' r \<noteq> []) recs))
   \<and> ([] \<notin> id' ` set recs \<longrightarrow>
        fst (fetchRecordsFromSpreadsheet cfg gasFetch
            (snd (syncRecordsToSpreadsheet cfg gasFetch recs sh))) = Some (map toJson recs)
      \<and> map_option set (fst (fetchRecordsFromSpreadsheet cfg gasFetch
            (snd (syncRecordsToSpreadsheet cfg gasFetch recs sh)))) = Some (toJson ` set recs))"
    by simp
qed

theorem sync_then_fetch_round_trip_witness:
  "SPREADSHEET_ENABLED cfgOn \<and> GAS_WEB_APP_URL cfgOn \<noteq> []
   \<and> [] \<notin> id' ` set [taxi, lunch]
   \<and> fst (syncRecordsToSpreadsheet cfgOn gasFetch [taxi, lunch] sheetWithBlankId) = True
   \<and> fst (fetchRecordsFromSpreadsheet cfgOn gasFetch
            (snd (syncRecordsToSpreadsheet cfgOn gasFetch [taxi, lunch] sheetWithBlankId))) =
       Some [toJson taxi, toJson lunch]"
proof -
  have ids: "[] \<notin> id' ` set [taxi, lunch]"
    by (simp add: taxi_def lunch_def ascii_def)
  note trip = sync_then_fetch_round_trip[of cfgOn "[taxi, lunch]" sheetWithBlankId, rule_format,
      OF conjI[OF cfgOn_enabled]]
  from trip[THEN conjunct1] trip[THEN conjunct2, THEN conjunct2, rule_format, OF ids, THEN conjunct1]
    cfgOn_enabled ids
  show ?thesis by simp
qed

text \<open>
  The claim as stated fails for a record with an empty id: it is written to the sheet,
  and \<open>doGet\<close> skips its row.
\<close>

theorem sync_then_fetch_counterexample:
  "fst (syncRecordsToSpreadsheet cfgOn gasFetch [noId] [headerRow]) = True
   \<and> fst (fetchRecordsFromSpreadsheet cfgOn gasFetch
            (snd (syncRecordsToSpreadsheet cfgOn gasFetch [noId] [headerRow]))) = Some []
   \<and> set ([]::jsonRecord list) \<noteq> toJson ` set [noId]"
  by (simp add: sync_gasFetch fetch_gasFetch cfgOn_enabled drop_syncRecords)
     (simp add: recordRow_toJson cell_of_row noId_def)

section \<open>Filtering and sorting\<close>

lemma mset_insertSorted: "mset (insertSorted c x ys) = add_mset x (mset ys)"
  by (induction ys) auto

lemma mset_arraySort: "mset (arraySort c xs) = mset xs"
  by (induction xs) (auto simp: arraySort_def mset_insertSorted)

lemma set_arraySort: "set (arraySort c xs) = set xs"
  by (metis mset_arraySort set_mset_mset)

lemma insertSorted_cong:
  "(\<And>y. y \<in> set ys \<Longrightarrow> (c x y \<le> 0) = (c' x y \<le> 0)) \<Longrightarrow>
   insertSorted c x ys = insertSorted c' x ys"
  by (induction ys) auto

lemma arraySort_cong:
  "(\<And>x y. x \<in> set xs \<Longrightarrow> y \<in> set xs \<Longrightarrow> (c x y \<le> 0) = (c' x y \<le> 0)) \<Longrightarrow>
   arraySort c xs = arraySort c' xs"
proof (induction xs)
  case Nil
  show ?case by (simp add: arraySort_def)
next
  case (Cons x xs)
  then have IH: "arraySort c xs = arraySort c' xs" by simp
  have "insertSorted c x (arraySort c' xs) = insertSorted c' x (arraySort c' xs)"
    by (rule insertSorted_cong) (simp add: set_arraySort Cons.prems)
  with IH show ?case by (simp add: arraySort_def)
qed

lemma getFilteredRecords_arraySort:
  "getFilteredRecords localeCompare st =
     arraySort (compareRecords localeCompare)
       (filter (matchesFilter (activeFilters st)) (storedRecords st))"
  by (auto simp: getFilteredRecords_def Let_def activeFilters_def storedRecords_def
      matchesFilter_def intro!: arg_cong[where f = "arraySort _"] filter_cong)


lemma newestFirst_total: "\<not> newestFirst a b \<Longrightarrow> newestFirst b a"
  by (auto simp: newestFirst_def)

lemma newestFirst_trans: "newestFirst a b \<Longrightarrow> newestFirst b c \<Longrightarrow> newestFirst a c"
  by (auto simp: newestFirst_def)

lemma compareRecords_codeUnitCompare:
  "(compareRecords codeUnitCompare a b \<le> 0) = newestFirst a b"
  by (auto simp: compareRecords_def codeUnitCompare_def newestFirst_def)

lemma set_insertSorted: "set (insertSorted c x ys) = insert x (set ys)"
  by (induction ys) auto

lemma sorted_wrt_insertSorted:
  assumes "sorted_wrt R ys"
    and le: "\<And>y. y \<in> set ys \<Longrightarrow> (c x y \<le> 0) = R x y"
    and total: "\<And>y. y \<in> set ys \<Longrightarrow> \<not> R x y \<Longrightarrow> R y x"
    and trans: "\<And>y z. y \<in> set ys \<Longrightarrow> z \<in> set ys \<Longrightarrow> R x y \<Longrightarrow> R y z \<Longrightarrow> R x z"
  shows "sorted_wrt R (insertSorted c x ys)"
  using assms
proof (induction ys)
  case Nil
  show ?case by simp
next
  case (Cons y ys)
  show ?case
  proof (cases "R x y")
    case True
    with Cons.prems(1,4) have "\<forall>z \<in> set (y # ys). R x z"
      by auto
    with True Cons.prems(1,2) show ?thesis
      by simp
  next
    case False
    with Cons.prems(3) have "R y x" by simp
    moreover have "sorted_wrt R (insertSorted c x ys)"
      using Cons.prems by (intro Cons.IH) auto
    ultimately show ?thesis
      using False Cons.prems(1,2) by (simp add: set_insertSorted)
  qed
qed

lemma sorted_wrt_arraySort:
  assumes le: "\<And>x y. x \<in> set xs \<Longrightarrow> y \<in> set xs \<Longrightarrow> (c x y \<le> 0) = R x y"
    and total: "\<And>x y. x \<in> set xs \<Longrightarrow> y \<in> set xs \<Longrightarrow> \<not> R x y \<Longrightarrow> R y x"
    and trans: "\<And>x y z. x \<in> set xs \<Longrightarrow> y \<in> set xs \<Longrightarrow> z \<in> set xs \<Longrightarrow>
                  R x y \<Longrightarrow> R y z \<Longrightarrow> R x z"
  shows "sorted_wrt R (arraySort c xs)"
  using assms
proof (induction xs)
  case Nil
  show ?case by (simp add: arraySort_def)
next
  case (Cons x xs)
  have tail: "sorted_wrt R (arraySort c xs)"
  proof (rule Cons.IH)
    fix a b assume "a \<in> set xs" "b \<in> set xs"
    then show "(c a b \<le> 0) = R a b" by (simp add: Cons.prems(1))
  next
    fix a b assume "a \<in> set xs" "b \<in> set xs" "\<not> R a b"
    then show "R b a" by (simp add: Cons.prems(2))
  next
    fix a b d assume "a \<in> set xs" "b \<in> set xs" "d \<in> set xs" "R a b" "R b d"
    then show "R a d" using Cons.prems(3)[of a b d] by simp
  qed
  have "sorted_wrt R (insertSorted c x (arraySort c xs))"
  proof (rule sorted_wrt_insertSorted[OF tail])
    fix y assume "y \<in> set (arraySort c xs)"
    then show "(c x y \<le> 0) = R x y" by (simp add: set_arraySort Cons.prems(1))
  next
    fix y assume "y \<in> set (arraySort c xs)" "\<not> R x y"
    then show "R y x" by (simp add: set_arraySort Cons.prems(2))
  next
    fix y z assume "y \<in> set (arraySort c xs)" "z \<in> set (arraySort c xs)" "R x y" "R y z"
    then show "R x z" using Cons.prems(3)[of x y z] by (simp add: set_arraySort)
  qed
  then show ?case by (simp add: arraySort_def)
qed

lemma sgn_le_0: "(sgn (i::int) \<le> 0) = (i \<le> 0)"
  by (simp add: sgn_if)

lemma compareRecords_agrees:
  assumes "agreesWithCodeUnits localeCompare (comparedStrings recs)"
    and "a \<in> set recs" and "b \<in> set recs"
  shows "(compareRecords localeCompare a b \<le> 0) = (compareRecords codeUnitCompare a b \<le> 0)"
proof -
  from assms have "sgn (localeCompare (date b) (date a)) = codeUnitCompare (date b) (date a)"
    "sgn (localeCompare (id' b) (id' a)) = codeUnitCompare (id' b) (id' a)"
    by (simp_all add: agreesWithCodeUnits_def comparedStrings_def)
  then have "sgn (compareRecords localeCompare a b) = compareRecords codeUnitCompare a b"
    by (simp add: compareRecords_def)
  then show ?thesis
    by (metis sgn_le_0)
qed

lemma getFilteredRecords_agrees:
  assumes "agreesWithCodeUnits localeCompare (comparedStrings (storedRecords st))"
  shows "getFilteredRecords localeCompare st = getFilteredRecords codeUnitCompare st"
  unfolding getFilteredRecords_arraySort
  by (rule arraySort_cong) (simp add: compareRecords_agrees[OF assms])

lemma january_example:
  "getFilteredRecords codeUnitCompare januaryStore =
     [january ''04'' ''lr4d'', january ''03'' ''lr3c'', january ''02'' ''lr2b'']"
  by (simp add: getFilteredRecords_arraySort activeFilters_def storedRecords_def januaryStore_def
      getStorageData_def matchesFilter_def january_def ascii_def sentinelAll_def arraySort_def
      compareRecords_def codeUnitCompare_def)

lemma consistentOn_total:
  "consistentOn c xs \<Longrightarrow> a \<in> set xs \<Longrightarrow> b \<in> set xs \<Longrightarrow> \<not> c a b \<le> 0 \<Longrightarrow> c b a \<le> 0"
  unfolding consistentOn_def list_all_iff by blast

lemma consistentOn_trans:
  "consistentOn c xs \<Longrightarrow> a \<in> set xs \<Longrightarrow> b \<in> set xs \<Longrightarrow> d \<in> set xs \<Longrightarrow>
   c a b \<le> 0 \<Longrightarrow> c b d \<le> 0 \<Longrightarrow> c a d \<le> 0"
  unfolding consistentOn_def list_all_iff by blast

lemma sorted_by_comparator:
  assumes "consistentOn (compareRecords localeCompare) (storedRecords st)"
  shows "sorted_wrt (\<lambda>a b. compareRecords localeCompare a b \<le> 0)
           (getFilteredRecords localeCompare st)"
  unfolding getFilteredRecords_arraySort
proof (rule sorted_wrt_arraySort)
  fix a b
  show "(compareRecords localeCompare a b \<le> 0) = (compareRecords localeCompare a b \<le> 0)"
    by simp
next
  fix a b
  assume "a \<in> set (filter (matchesFilter (activeFilters st)) (storedRecords st))"
    "b \<in> set (filter (matchesFilter (activeFilters st)) (storedRecords st))"
    "\<not> compareRecords localeCompare a b \<le> 0"
  then show "compareRecords localeCompare b a \<le> 0"
    using consistentOn_total[OF assms, of a b] by simp
next
  fix a b d
  assume "a \<in> set (filter (matchesFilter (activeFilters st)) (storedRecords st))"
    "b \<in> set (filter (matchesFilter (activeFilters st)) (storedRecords st))"
    "d \<in> set (filter (matchesFilter (activeFilters st)) (storedRecords st))"
    "compareRecords localeCompare a b \<le> 0" "compareRecords localeCompare b d \<le> 0"
  then show "compareRecords localeCompare a d \<le> 0"
    using consistentOn_trans[OF assms, of a b d] by simp
qed

lemma consistentOnI:
  assumes "\<And>a b. a \<in> set xs \<Longrightarrow> b \<in> set xs \<Longrightarrow> \<not> c a b \<le> 0 \<Longrightarrow> c b a \<le> 0"
    and "\<And>a b d. a \<in> set xs \<Longrightarrow> b \<in> set xs \<Longrightarrow> d \<in> set xs \<Longrightarrow>
           c a b \<le> 0 \<Longrightarrow> c b d \<le> 0 \<Longrightarrow> c a d \<le> 0"
  shows "consistentOn c xs"
  unfolding consistentOn_def list_all_iff using assms by blast

lemma consistentOn_codeUnitCompare: "consistentOn (compareRecords codeUnitCompare) xs"
proof (rule consistentOnI)
  fix a b
  assume "\<not> compareRecords codeUnitCompare a b \<le> 0"
  then show "compareRecords codeUnitCompare b a \<le> 0"
    by (simp add: compareRecords_codeUnitCompare newestFirst_total)
next
  fix a b d
  assume "compareRecords codeUnitCompare a b \<le> 0" "compareRecords codeUnitCompare b d \<le> 0"
  then show "compareRecords codeUnitCompare a d \<le> 0"
    unfolding compareRecords_codeUnitCompare by (rule newestFirst_trans)
qed

lemma mixedCase_compare:
  "compareRecords alphabeticCompare (lunch\<lparr>id' := ascii ''a''\<rparr>) (lunch\<lparr>id' := ascii ''B''\<rparr>) = 1"
  "compareRecords alphabeticCompare (lunch\<lparr>id' := ascii ''B''\<rparr>) (lunch\<lparr>id' := ascii ''a''\<rparr>) = - 1"
  "compareRecords alphabeticCompare (lunch\<lparr>id' := ascii ''a''\<rparr>) (lunch\<lparr>id' := ascii ''a''\<rparr>) = 0"
  "compareRecords alphabeticCompare (lunch\<lparr>id' := ascii ''B''\<rparr>) (lunch\<lparr>id' := ascii ''B''\<rparr>) = 0"
  by (simp_all add: compareRecords_def alphabeticCompare_def codeUnitCompare_def foldCase_def
      ascii_def)

lemma mixedCase_stored:
  "storedRecords mixedCaseIds = [lunch\<lparr>id' := ascii ''a''\<rparr>, lunch\<lparr>id' := ascii ''B''\<rparr>]"
  by (simp add: storedRecords_def mixedCaseIds_def getStorageData_def)

lemma mixedCase_consistent:
  "consistentOn (compareRecords alphabeticCompare) (storedRecords mixedCaseIds)"
  by (simp add: mixedCase_stored consistentOn_def mixedCase_compare)

lemma mixedCase_unsorted:
  "\<not> sorted_wrt (\<lambda>a b. compareRecords alphabeticCompare a b \<le> 0)
       [lunch\<lparr>id' := ascii ''a''\<rparr>, lunch\<lparr>id' := ascii ''B''\<rparr>]"
  by (simp add: mixedCase_compare)

text \<open>
  C4, as the code has it. \<open>getFilteredRecords\<close> returns exactly the stored records
  that match the filter, each as often as it is stored. Its comparison function orders
  by date descending and, for equal dates, by id descending, both compared with the
  host's \<^verbatim>\<open>localeCompare\<close>: whenever that function is a consistent order on the
  stored records, the result is sorted by it, whatever the collation. Whenever the
  collation agrees with the lexicographic comparison on the stored dates and ids, the
  result is sorted by date descending and, for equal dates, by id descending under that
  comparison; and for the records dated 2024-01-01 to 2024-01-05 under the filter from
  2024-01-02 to 2024-01-04 it is the three records of 01-04, 01-03 and 01-02, in this
  order.
\<close>

theorem getFilteredRecords_filters_and_sorts:
  "mset (getFilteredRecords localeCompare st) =
     mset (filter (matchesFilter (activeFilters st)) (storedRecords st))
   \<and> (consistentOn (compareRecords localeCompare) (storedRecords st) \<longrightarrow>
        sorted_wrt (\<lambda>a b. compareRecords localeCompare a b \<le> 0)
          (getFilteredRecords localeCompare st))
   \<and> (agreesWithCodeUnits localeCompare (comparedStrings (storedRecords st)) \<longrightarrow>
        sorted_wrt newestFirst (getFilteredRecords localeCompare st))
   \<and> (agreesWithCodeUnits localeCompare (comparedStrings (storedRecords januaryStore)) \<longrightarrow>
        getFilteredRecords localeCompare januaryStore =
          [january ''04'' ''lr4d'', january ''03'' ''lr3c'', january ''02'' ''lr2b''])"
proof -
  have "mset (getFilteredRecords localeCompare st) =
     mset (filter (matchesFilter (activeFilters st)) (storedRecords st))"
    by (simp add: getFilteredRecords_arraySort mset_arraySort)
  moreover have "sorted_wrt (\<lambda>a b. compareRecords localeCompare a b \<le> 0)
      (getFilteredRecords localeCompare st)"
    if "consistentOn (compareRecords localeCompare) (storedRecords st)"
    using that by (rule sorted_by_comparator)
  moreover have "sorted_wrt newestFirst (getFilteredRecords localeCompare st)"
    if agrees: "agreesWithCodeUnits localeCompare (comparedStrings (storedRecords st))"
    unfolding getFilteredRecords_arraySort
  proof (rule sorted_wrt_arraySort)
    fix a b
    assume "a \<in> set (filter (matchesFilter (activeFilters st)) (storedRecords st))"
      "b \<in> set (filter (matchesFilter (activeFilters st)) (storedRecords st))"
    then show "(compareRecords localeCompare a b \<le> 0) = newestFirst a b"
      using compareRecords_agrees[OF agrees, of a b]
      by (simp add: compareRecords_codeUnitCompare)
  qed (auto intro: newestFirst_total newestFirst_trans)
  moreover have "getFilteredRecords localeCompare januaryStore =
          [january ''04'' ''lr4d'', january ''03'' ''lr3c'', january ''02'' ''lr2b'']"
    if "agreesWithCodeUnits localeCompare (comparedStrings (storedRecords januaryStore))"
    using getFilteredRecords_agrees[OF that] by (simp add: january_example)
  ultimately show ?thesis by blast
qed

lemma agreesWithCodeUnits_codeUnitCompare: "agreesWithCodeUnits codeUnitCompare S"
  by (simp add: agreesWithCodeUnits_def codeUnitCompare_def)

theorem getFilteredRecords_filters_and_sorts_witness:
  "agreesWithCodeUnits codeUnitCompare (comparedStrings (storedRecords januaryStore))
   \<and> getFilteredRecords codeUnitCompare januaryStore =
       [january ''04'' ''lr4d'', january ''03'' ''lr3c'', january ''02'' ''lr2b'']
   \<and> sorted_wrt newestFirst (getFilteredRecords codeUnitCompare januaryStore)
   \<and> mset (getFilteredRecords codeUnitCompare januaryStore) =
       mset (filter (matchesFilter (activeFilters januaryStore)) (storedRecords januaryStore))
   \<and> consistentOn (compareRecords codeUnitCompare) (storedRecords januaryStore)
   \<and> sorted_wrt (\<lambda>a b. compareRecords codeUnitCompare a b \<le> 0)
       (getFilteredRecords codeUnitCompare januaryStore)
   \<and> consistentOn (compareRecords alphabeticCompare) (storedRecords mixedCaseIds)
   \<and> sorted_wrt (\<lambda>a b. compareRecords alphabeticCompare a b \<le> 0)
       (getFilteredRecords alphabeticCompare mixedCaseIds)
   \<and> \<not> sorted_wrt (\<lambda>a b. compareRecords alphabeticCompare a b \<le> 0)
       [lunch\<lparr>id' := ascii ''a''\<rparr>, lunch\<lparr>id' := ascii ''B''\<rparr>]"
  using getFilteredRecords_filters_and_sorts[of codeUnitCompare januaryStore]
    getFilteredRecords_filters_and_sorts[of alphabeticCompare mixedCaseIds]
    agreesWithCodeUnits_codeUnitCompare[of "comparedStrings (storedRecords januaryStore)"]
    consistentOn_codeUnitCompare[of "storedRecords januaryStore"]
    mixedCase_consistent mixedCase_unsorted
  by blast

text \<open>
  The claim as stated, with the order under lexicographic comparison for every record
  list, fails where the collation is not that comparison: two records of one date with
  the ids \<^verbatim>\<open>a\<close> and \<^verbatim>\<open>B\<close> come out with \<^verbatim>\<open>B\<close> first, although
  \<^verbatim>\<open>B\<close> is lexicographically the smaller id.
\<close>

theorem getFilteredRecords_locale_counterexample:
  "getFilteredRecords alphabeticCompare mixedCaseIds =
     [lunch\<lparr>id' := ascii ''B''\<rparr>, lunch\<lparr>id' := ascii ''a''\<rparr>]
   \<and> \<not> sorted_wrt newestFirst (getFilteredRecords alphabeticCompare mixedCaseIds)
   \<and> ascii ''B'' < ascii ''a''"
  by (simp add: getFilteredRecords_arraySort activeFilters_def storedRecords_def mixedCaseIds_def
      getStorageData_def matchesFilter_def defaultFilters_def arraySort_def lunch_def
      compareRecords_def alphabeticCompare_def codeUnitCompare_def foldCase_def ascii_def
      newestFirst_def)

section \<open>Aggregation: totals and the summary by category\<close>

text \<open>The total is the sum of the amounts, 0 for no record.\<close>

lemma foldl_plus: "foldl (\<lambda>s r. s + f r) (a::int) xs = a + sum_list (map f xs)"
  by (induction xs arbitrary: a) auto

lemma calculateTotal_sum:
  "calculateTotal recs = sum_list (map (\<lambda>r. amountValue (amount r)) recs)"
  by (simp add: calculateTotal_def foldl_plus)

text \<open>
  For categories that are not names of properties of \<^verbatim>\<open>Object.prototype\<close> the
  summary is as the specification says: its keys are the categories that occur, each
  once, each with the sum of the amounts of its records, and \<^verbatim>\<open>renderSummary\<close>
  lists these entries by descending sum.
\<close>

lemma protoKey_inherited: "protoKey \<in> set objectPrototypeKeys"
  by (simp add: protoKey_def objectPrototypeKeys_def)

lemma numeric_map_of: "numeric obj \<Longrightarrow> map_of obj k = Some p \<Longrightarrow> \<exists>n. p = Number (Some n)"
  by (auto simp: numeric_def dest!: map_of_SomeD)

lemma numeric_update: "numeric obj \<Longrightarrow> numeric (AList.update k (Number (Some n)) obj)"
  by (induction obj) (auto simp: numeric_def)

lemma summaryStep_plain:
  assumes "category r \<notin> set objectPrototypeKeys" and "numeric obj"
  shows "summaryStep obj r =
     AList.update (category r) (Number (Some (held obj (category r) + amountValue (amount r)))) obj"
proof -
  from assms(1) have k: "category r \<noteq> protoKey"
    using protoKey_inherited by auto
  show ?thesis
  proof (cases "map_of obj (category r)")
    case None
    with assms(1) k show ?thesis
      by (simp add: summaryStep_def getProperty_def setProperty_def held_def update_conv')
  next
    case (Some p)
    with assms(2) obtain n where p: "p = Number (Some n)"
      by (auto dest: numeric_map_of)
    with Some assms(1) k show ?thesis
      by (cases "n = 0")
         (simp_all add: summaryStep_def getProperty_def setProperty_def held_def update_conv'
            update_triv)
  qed
qed


lemma summary_plain:
  assumes "category ` set recs \<inter> set objectPrototypeKeys = {}" and "numeric obj"
  shows "numeric (foldl summaryStep obj recs)
       \<and> fst ` set (foldl summaryStep obj recs) = fst ` set obj \<union> category ` set recs
       \<and> (\<forall>c. held (foldl summaryStep obj recs) c = held obj c + categoryTotal recs c)"
  using assms
proof (induction recs arbitrary: obj)
  case Nil
  then show ?case by (simp add: categoryTotal_def)
next
  case (Cons r recs)
  let ?obj = "AList.update (category r) (Number (Some (held obj (category r) + amountValue (amount r)))) obj"
  from Cons.prems have step: "summaryStep obj r = ?obj"
    by (intro summaryStep_plain) auto
  have num: "numeric ?obj"
    using Cons.prems(2) by (rule numeric_update)
  have held: "held ?obj c = held obj c + (if category r = c then amountValue (amount r) else 0)" for c
    by (simp add: held_def update_conv')
  from Cons.prems(1) have "category ` set recs \<inter> set objectPrototypeKeys = {}"
    by auto
  from Cons.IH[OF this num] held show ?case
    by (auto simp: step dom_update categoryTotal_def)
qed

lemma distinct_summary:
  "distinct (map fst obj) \<Longrightarrow> distinct (map fst (foldl summaryStep obj recs))"
proof (induction recs arbitrary: obj)
  case Nil
  then show ?case by simp
next
  case (Cons r recs)
  have "distinct (map fst (summaryStep obj r))"
    using Cons.prems by (simp add: summaryStep_def setProperty_def Let_def distinct_update)
  then show ?case by (simp add: Cons.IH)
qed

lemma calculateCategorySummary_plain:
  assumes "category ` set recs \<inter> set objectPrototypeKeys = {}"
  shows "map_of (calculateCategorySummary recs) c =
           (if c \<in> category ` set recs then Some (Number (Some (categoryTotal recs c))) else None)"
    and "fst ` set (calculateCategorySummary recs) = category ` set recs"
    and "distinct (map fst (calculateCategorySummary recs))"
proof -
  have empty: "numeric []" by (simp add: numeric_def)
  note all = summary_plain[OF assms empty, folded calculateCategorySummary_def]
  from all show keys: "fst ` set (calculateCategorySummary recs) = category ` set recs"
    by simp
  show "distinct (map fst (calculateCategorySummary recs))"
    by (simp add: calculateCategorySummary_def distinct_summary)
  from all have held: "held (calculateCategorySummary recs) c = categoryTotal recs c"
    by (simp add: held_def)
  show "map_of (calculateCategorySummary recs) c =
           (if c \<in> category ` set recs then Some (Number (Some (categoryTotal recs c))) else None)"
  proof (cases "map_of (calculateCategorySummary recs) c")
    case None
    with keys show ?thesis
      by (metis domIff dom_map_of_conv_image_fst)
  next
    case (Some p)
    with all obtain n where "p = Number (Some n)"
      by (auto dest: numeric_map_of)
    with Some held keys show ?thesis
      by (auto simp: held_def dest!: map_of_SomeD) (metis fst_conv imageI)
  qed
qed


lemma mset_objectEntries: "mset (objectEntries obj) = mset obj"
  by (simp add: objectEntries_def)

lemma set_objectEntries: "set (objectEntries obj) = set obj"
  by (metis mset_objectEntries set_mset_mset)

lemma categorySummaryRows_plain:
  assumes "category ` set recs \<inter> set objectPrototypeKeys = {}"
  shows "mset (categorySummaryRows recs) = mset (calculateCategorySummary recs)"
    and "sorted_wrt (\<lambda>a b. summedAmount (snd b) \<le> summedAmount (snd a)) (categorySummaryRows recs)"
proof -
  show "mset (categorySummaryRows recs) = mset (calculateCategorySummary recs)"
    by (simp add: categorySummaryRows_def mset_arraySort mset_objectEntries)
  have "numeric []" by (simp add: numeric_def)
  from summary_plain[OF assms this] have num: "numeric (calculateCategorySummary recs)"
    by (simp add: calculateCategorySummary_def)
  show "sorted_wrt (\<lambda>a b. summedAmount (snd b) \<le> summedAmount (snd a)) (categorySummaryRows recs)"
    unfolding categorySummaryRows_def
  proof (rule sorted_wrt_arraySort)
    fix a b
    assume "a \<in> set (objectEntries (calculateCategorySummary recs))"
      "b \<in> set (objectEntries (calculateCategorySummary recs))"
    with num have "\<exists>m. snd a = Number (Some m)" "\<exists>n. snd b = Number (Some n)"
      by (simp_all add: set_objectEntries numeric_def)
    then obtain m n where "snd a = Number (Some m)" "snd b = Number (Some n)"
      by blast
    then show "(minusProperty (snd b) (snd a) \<le> 0) = (summedAmount (snd b) \<le> summedAmount (snd a))"
      by simp
  qed auto
qed

lemma aggregation_example:
  "calculateTotal [lunch, dinner, taxi] = 180"
  "calculateCategorySummary [lunch, dinner, taxi] =
     [(shokuhi, Number (Some 150)), (kotsu, Number (Some 30))]"
  "categorySummaryRows [lunch, dinner, taxi] =
     [(shokuhi, Number (Some 150)), (kotsu, Number (Some 30))]"
  "categorySummaryRows [taxi, lunch, dinner] =
     [(shokuhi, Number (Some 150)), (kotsu, Number (Some 30))]"
  by code_simp+

text \<open>
  C6 fails on the code for a category that names a property of \<^verbatim>\<open>Object.prototype\<close>.
  For one record of 100 in the category \<^verbatim>\<open>constructor\<close>, the inherited
  \<^verbatim>\<open>summary.constructor\<close> is truthy, so the entry is never set to 0, and
  \<^verbatim>\<open>+=\<close> concatenates: the summary holds a string for the category, not the sum
  100. For the category \<^verbatim>\<open>__proto__\<close> the assignment is dropped and the summary
  has no entry at all.
\<close>

theorem calculateCategorySummary_inherited_key:
  "calculateCategorySummary [lunch\<lparr>category := constructorKey\<rparr>] = [(constructorKey, Text)]
   \<and> calculateCategorySummary [lunch\<lparr>category := constructorKey\<rparr>] \<noteq>
       [(constructorKey, Number (Some 100))]
   \<and> amount (lunch\<lparr>category := constructorKey\<rparr>) = Some 100
   \<and> calculateCategorySummary [lunch\<lparr>category := protoKey\<rparr>] = []"
  by code_simp

end
